theory Spec2Isabelle
  imports Main "HOL-Library.AList"
begin

section \<open>Python values, strings and paths\<close>

text \<open>
  The module \<^verbatim>\<open>src/training/nn_trainer.py\<close> is glue code: it formats strings,
  builds a dictionary, and calls into the tensor library, the dataset and the file
  system. The embedding keeps the strings, the dictionary and the control flow as the
  code has them. The attributes of an individual that the code only copies
  (\<^verbatim>\<open>id\<close>, \<^verbatim>\<open>fitness\<close>, \<^verbatim>\<open>source\<close>,
  \<^verbatim>\<open>learning_rate\<close>, \<^verbatim>\<open>iteration\<close>) are Python objects of an
  arbitrary type \<open>'v\<close>; the weights returned by \<^verbatim>\<open>state_dict()\<close> are of an
  arbitrary type \<open>'w\<close>.
\<close>

datatype py_error = IndexError | RuntimeError

text \<open>
  What \<^verbatim>\<open>yaml.dump\<close> receives: a tree of dictionaries, lists and scalars. A
  dictionary is an association list in insertion order; \<^verbatim>\<open>d[k] = v\<close> is
  \<^const>\<open>AList.update\<close> (replace in place, or append a new key).
\<close>

datatype 'v pyval =
    PStr string
  | PInt int
  | PBool bool
  | PObj 'v
  | PList "'v pyval list"
  | PDict "(string \<times> 'v pyval) list"

type_synonym 'v pydict = "(string \<times> 'v pyval) list"

definition dict_set :: "string \<Rightarrow> 'v pyval \<Rightarrow> 'v pydict \<Rightarrow> 'v pydict" where
  "dict_set k v d = AList.update k v d"

definition dict_get :: "'v pydict \<Rightarrow> string \<rightharpoonup> 'v pyval" where
  "dict_get d k = map_of d k"

text \<open>\<^verbatim>\<open>'{}'.format(n)\<close> for a Python integer: its decimal digits, with a sign.\<close>

definition digit_char :: "nat \<Rightarrow> char" where
  "digit_char d = ''0123456789'' ! d"

fun str_nat :: "nat \<Rightarrow> string" where
  "str_nat n = (if n < 10 then [digit_char n]
                else str_nat (n div 10) @ [digit_char (n mod 10)])"

declare str_nat.simps [simp del]

definition str_int :: "int \<Rightarrow> string" where
  "str_int i = (if i < 0 then CHR ''-'' # str_nat (nat (- i)) else str_nat (nat i))"

text \<open>
  \<^verbatim>\<open>os.path.join(a, p)\<close> with two arguments (posixpath): an absolute \<open>p\<close>
  replaces \<open>a\<close>; otherwise a separator is inserted unless \<open>a\<close> is empty or already
  ends with one.
\<close>

definition path_join :: "string \<Rightarrow> string \<Rightarrow> string" where
  "path_join a p =
     (if p \<noteq> [] \<and> hd p = CHR ''/'' then p
      else if a = [] \<or> last a = CHR ''/'' then a @ p
      else a @ ''/'' @ p)"

text \<open>\<^verbatim>\<open>sep.join(xs)\<close> on a list of strings.\<close>

fun str_join :: "string \<Rightarrow> string list \<Rightarrow> string" where
  "str_join sep [] = []"
| "str_join sep [x] = x"
| "str_join sep (x # y # ys) = x @ sep @ str_join sep (y # ys)"

section \<open>Individuals and the files of a checkpoint\<close>

text \<open>
  A network module is an object on the heap; an individual's \<^verbatim>\<open>genome.net\<close>
  is a reference to it (a natural number), so two individuals may share a network.
\<close>

datatype genome = Genome (net: nat)

record 'v individual =
  id_attr :: 'v
  is_local :: bool
  fitness :: 'v
  source :: 'v
  learning_rate :: 'v
  iteration :: 'v
  genome :: genome

text \<open>
  The output directory as a map from path to content. \<^verbatim>\<open>torch.save\<close> writes a
  pickle of the weights, \<^verbatim>\<open>yaml.dump\<close> writes the document. Writing replaces what
  the path held; the directory is assumed to exist and to be writable.
\<close>

datatype ('v, 'w) out_file = PickleFile 'w | YamlFile "'v pyval"

type_synonym ('v, 'w) fs = "string \<rightharpoonup> ('v, 'w) out_file"

definition GENERATOR_PREFIX :: string where
  "GENERATOR_PREFIX = ''generator-''"

definition DISCRIMINATOR_PREFIX :: string where
  "DISCRIMINATOR_PREFIX = ''discriminator-''"

section \<open>save_checkpoint\<close>

text \<open>
  Lines 113-119: the dictionary \<^verbatim>\<open>indiv\<close> built for one individual.
\<close>

definition indiv_dict :: "'v individual \<Rightarrow> 'v pydict" where
  "indiv_dict individual =
     dict_set ''source'' (PObj (source individual))
       (dict_set ''fitness'' (PObj (fitness individual))
         (dict_set ''is_local'' (PBool (is_local individual))
           (dict_set ''id'' (PObj (id_attr individual)) [])))"

text \<open>Line 122: \<^verbatim>\<open>'{}{}-{}.pkl'.format(prefix, cell_number, local_id)\<close>.\<close>

definition pkl_filename :: "string \<Rightarrow> int \<Rightarrow> nat \<Rightarrow> string" where
  "pkl_filename prefix cell_number local_id =
     prefix @ str_int cell_number @ ''-'' @ str_nat local_id @ ''.pkl''"

text \<open>
  Lines 112-125: the loop over the individuals. The loop state is the list
  \<^verbatim>\<open>individuals_info['individuals']\<close>, the counter \<^verbatim>\<open>local_id\<close> and the
  file system. \<open>state_dict\<close> reads the weights of a network on the heap.
\<close>

fun individuals_loop ::
  "(nat \<Rightarrow> 'w) \<Rightarrow> string \<Rightarrow> string \<Rightarrow> int \<Rightarrow> 'v individual list \<Rightarrow>
   'v pyval list \<times> nat \<times> ('v, 'w) fs \<Rightarrow> 'v pyval list \<times> nat \<times> ('v, 'w) fs" where
  "individuals_loop state_dict output_dir prefix cell_number [] st = st"
| "individuals_loop state_dict output_dir prefix cell_number (individual # rest) (infos, local_id, files) =
     (let indiv = indiv_dict individual;
          infos' = infos @ [PDict indiv]
      in if dict_get indiv ''is_local'' = Some (PBool True) then
           let filename = pkl_filename prefix cell_number local_id;
               files' = files(path_join output_dir filename \<mapsto>
                          PickleFile (state_dict (net (genome individual))))
           in individuals_loop state_dict output_dir prefix cell_number rest
                (infos', local_id + 1, files')
         else individuals_loop state_dict output_dir prefix cell_number rest
                (infos', local_id, files))"

text \<open>
  Lines 106-127. \<open>fmt\<close> is \<^verbatim>\<open>'{}'.format\<close> on the type of the learning rate. An
  empty population gives the empty dictionary and writes nothing.
\<close>

definition get_individuals_information ::
  "('v \<Rightarrow> string) \<Rightarrow> (nat \<Rightarrow> 'w) \<Rightarrow> string \<Rightarrow> 'v individual list \<Rightarrow> string \<Rightarrow> int \<Rightarrow>
   ('v, 'w) fs \<Rightarrow> 'v pydict \<times> ('v, 'w) fs" where
  "get_individuals_information fmt state_dict output_dir individuals prefix cell_number files =
     (if length individuals > 0 then
        let info1 = dict_set ''learning_rate'' (PStr (fmt (learning_rate (individuals ! 0)))) [];
            (infos, local_id, files') =
               individuals_loop state_dict output_dir prefix cell_number individuals ([], 0, files)
        in (dict_set ''individuals'' (PList infos) info1, files')
      else ([], files))"

text \<open>
  Lines 104-142. \<open>now\<close> is the formatted clock reading of line 130. The grid position
  is the pair the callers pass. Reading \<^verbatim>\<open>generators[0]\<close> on an empty list raises
  \<^verbatim>\<open>IndexError\<close>, after both populations have been processed; the file system at
  that moment is returned with the error.
\<close>

definition checkpoint_path :: "string \<Rightarrow> int \<Rightarrow> string" where
  "checkpoint_path output_dir cell_number =
     path_join output_dir (''checkpoint-'' @ str_int cell_number @ ''.yml'')"

definition save_checkpoint ::
  "('v \<Rightarrow> string) \<Rightarrow> (nat \<Rightarrow> 'w) \<Rightarrow> string \<Rightarrow> string \<Rightarrow>
   'v individual list \<Rightarrow> 'v individual list \<Rightarrow> int \<Rightarrow> int \<times> int \<Rightarrow> int \<Rightarrow>
   ('v, 'w) fs \<Rightarrow> (py_error + unit) \<times> ('v, 'w) fs" where
  "save_checkpoint fmt state_dict output_dir now generators discriminators cell_number
       grid_position grid_size files =
     (let checkpoint = dict_set ''time'' (PStr now) [];
          (gen_info, files1) = get_individuals_information fmt state_dict output_dir
                                 generators GENERATOR_PREFIX cell_number files;
          checkpoint = dict_set ''generators'' (PDict gen_info) checkpoint;
          (dis_info, files2) = get_individuals_information fmt state_dict output_dir
                                 discriminators DISCRIMINATOR_PREFIX cell_number files1;
          checkpoint = dict_set ''discriminators'' (PDict dis_info) checkpoint;
          checkpoint = dict_set ''id'' (PInt cell_number) checkpoint
      in case generators of
           [] \<Rightarrow> (Inl IndexError, files2)
         | g0 # _ \<Rightarrow>
             let checkpoint = dict_set ''iteration'' (PObj (iteration g0)) checkpoint;
                 position = dict_set ''y'' (PInt (snd grid_position))
                              (dict_set ''x'' (PInt (fst grid_position)) []);
                 checkpoint = dict_set ''position'' (PDict position) checkpoint;
                 checkpoint = dict_set ''grid_size'' (PInt grid_size) checkpoint;
                 path_checkpoint = checkpoint_path output_dir cell_number
             in (Inr (), files2(path_checkpoint \<mapsto> YamlFile (PDict checkpoint))))"

section \<open>The trainer state\<close>

text \<open>
  Tensors are kept symbolic: the module never looks inside one, it only builds them and
  hands them on. \<open>Input\<close> is the batch \<^verbatim>\<open>input_var\<close>, \<open>Noise n m\<close> is the
  tensor a successful \<^verbatim>\<open>noise(n, m)\<close> returns, \<open>Forward g z\<close> is the call
  \<^verbatim>\<open>gen(z)\<close> of the network at reference \<open>g\<close>, and \<open>Size t k\<close> is
  \<^verbatim>\<open>t.size(k)\<close>.
\<close>

datatype 'v tensor =
    Input 'v
  | Noise int int
  | Unsqueeze "'v tensor" int
  | Repeat "'v tensor" "'v dim" "'v dim" "'v dim"
  | Forward nat "'v tensor"
and 'v dim =
    Lit int
  | Size "'v tensor" int

text \<open>\<^verbatim>\<open>generated_output\<close> is one tensor, or a Python list of tensors.\<close>

datatype 'v gen_output = Single "'v tensor" | Many "'v tensor list"

text \<open>
  The calls that write images, in the order they are made:
  \<^verbatim>\<open>loader.dataset.save_images(images, path)\<close>,
  \<^verbatim>\<open>loader.dataset.save_images(images, path, discr)\<close> and
  \<^verbatim>\<open>self.dataloader.save_images(images, shape, path)\<close>.
\<close>

datatype 'v save_call =
    DatasetSave "'v tensor" string
  | DatasetSaveDiscr "'v gen_output" string "genome option"
  | DataloaderSave "'v tensor" "int list option" string

text \<open>
  What the two methods change: the mode flag of each network module
  (\<^verbatim>\<open>eval()\<close> clears it, \<^verbatim>\<open>train()\<close> sets it), the messages given to the
  logger, and the image-saving calls made. The image-saving methods and the forward
  pass belong to the dataset and to the tensor library; they are taken to return
  normally and not to change the mode of a network.
\<close>

record 'v world =
  training :: "nat \<Rightarrow> bool"
  logged :: "string list"
  saved :: "'v save_call list"

text \<open>
  The settings the two methods read. A key read with \<^verbatim>\<open>[...]\<close> is a field; a key
  read with \<^verbatim>\<open>.get(key, False)\<close> is optional.
\<close>

record settings =
  dataloader_sample_count :: "int option"
  dataloader_dataset_name :: string
  logging_image_format :: string
  logging_print_multiple_generators :: "bool option"
  logging_print_discriminator :: "bool option"

text \<open>
  \<^verbatim>\<open>self\<close>: the individuals of the two populations, the configuration container
  (\<^verbatim>\<open>cc.settings\<close>, \<^verbatim>\<open>cc.output_dir\<close>) and
  \<^verbatim>\<open>network_factory.gen_input_size\<close>.
\<close>

record 'v trainer =
  population_gen :: "'v individual list"
  population_dis :: "'v individual list"
  cc_settings :: settings
  cc_output_dir :: string
  gen_input_size :: int

text \<open>
  \<^verbatim>\<open>loader.dataset\<close>: whether it has a \<^verbatim>\<open>save_images\<close> method, and the
  shape of its \<^verbatim>\<open>train_data\<close> when it has that attribute.
\<close>

record loader =
  dataset_has_save_images :: bool
  dataset_train_data_shape :: "int list option"

definition eval_mode :: "nat \<Rightarrow> 'v world \<Rightarrow> 'v world" where
  "eval_mode g w = w\<lparr>training := (training w)(g := False)\<rparr>"

definition train_mode :: "nat \<Rightarrow> 'v world \<Rightarrow> 'v world" where
  "train_mode g w = w\<lparr>training := (training w)(g := True)\<rparr>"

definition save_call :: "'v save_call \<Rightarrow> 'v world \<Rightarrow> 'v world" where
  "save_call c w = w\<lparr>saved := saved w @ [c]\<rparr>"

text \<open>Truth value of \<^verbatim>\<open>path_real\<close> (default \<^verbatim>\<open>None\<close>) and of a \<^verbatim>\<open>.get(key, False)\<close>.\<close>

definition truthy_path :: "string option \<Rightarrow> bool" where
  "truthy_path p = (case p of None \<Rightarrow> False | Some s \<Rightarrow> s \<noteq> [])"

definition get_flag :: "bool option \<Rightarrow> bool" where
  "get_flag b = (case b of None \<Rightarrow> False | Some v \<Rightarrow> v)"

section \<open>save_images\<close>

text \<open>
  Modelled from the spec: \<^verbatim>\<open>helpers.pytorch_helpers.noise\<close>, imported at line 6,
  is not among the sources, and the spec says of it only that the module is layered on a
  tensor library. \<^verbatim>\<open>noise(batch_size, data_size)\<close> returns a tensor of
  \<^verbatim>\<open>batch_size\<close> rows of \<^verbatim>\<open>data_size\<close> random values; the tensor library
  refuses a negative dimension with \<^verbatim>\<open>RuntimeError\<close>.
\<close>

definition noise :: "int \<Rightarrow> int \<Rightarrow> py_error + 'v tensor" where
  "noise batch_size data_size =
     (if batch_size < 0 \<or> data_size < 0 then Inl RuntimeError
      else Inr (Noise batch_size data_size))"

text \<open>
  Lines 69-71: for the \<^verbatim>\<open>network_traffic\<close> dataset the latent batch is repeated
  along the sequence; the input batch of that dataset is taken to have the sequence as
  its second dimension.
\<close>

definition expand_sequence :: "'v trainer \<Rightarrow> 'v tensor \<Rightarrow> 'v tensor \<Rightarrow> 'v tensor" where
  "expand_sequence self input_var z =
     (if dataloader_dataset_name (cc_settings self) = ''network_traffic'' then
        let sequence_length = Size input_var 1
        in Repeat (Unsqueeze z 1) (Lit 1) sequence_length (Lit 1)
      else z)"

text \<open>Lines 68-71: the latent batch \<^verbatim>\<open>z\<close>, or the error of \<^verbatim>\<open>noise\<close>.\<close>

definition latent :: "'v trainer \<Rightarrow> int \<Rightarrow> 'v tensor \<Rightarrow> py_error + 'v tensor" where
  "latent self batch_size input_var =
     (case noise batch_size (gen_input_size self) of
        Inl e \<Rightarrow> Inl e
      | Inr z \<Rightarrow> Inr (expand_sequence self input_var z))"

text \<open>Lines 76-79: the body of the loop over the first generators.\<close>

definition multi_step ::
  "'v trainer \<Rightarrow> 'v tensor \<Rightarrow> nat \<Rightarrow> 'v tensor list \<times> 'v world \<Rightarrow> 'v tensor list \<times> 'v world" where
  "multi_step self z i st =
     (case st of (generated_output, w) \<Rightarrow>
        let gen = net (genome (population_gen self ! i));
            w = eval_mode gen w;
            generated_output = generated_output @ [Forward gen z];
            w = train_mode gen w
        in (generated_output, w))"

text \<open>
  Lines 73-84: the generated output. With \<^verbatim>\<open>print_multiple_generators\<close> the loop
  runs over \<^verbatim>\<open>range(min(len(individuals), 5))\<close> and an empty population gives the
  empty list; otherwise \<^verbatim>\<open>individuals[0]\<close> raises on an empty population.
\<close>

definition generate :: "'v trainer \<Rightarrow> 'v tensor \<Rightarrow> 'v world \<Rightarrow> (py_error + 'v gen_output) \<times> 'v world" where
  "generate self z w =
     (if get_flag (logging_print_multiple_generators (cc_settings self)) then
        let (generated_output, w') =
              fold (multi_step self z) [0 ..< min (length (population_gen self)) 5] ([], w)
        in (Inr (Many generated_output), w')
      else
        case population_gen self of
          [] \<Rightarrow> (Inl IndexError, w)
        | g0 # _ \<Rightarrow>
            let gen = net (genome g0);
                w = eval_mode gen w;
                generated_output = Forward gen z;
                w = train_mode gen w
            in (Inr (Single generated_output), w))"

text \<open>
  Lines 61-102. In both branches \<^verbatim>\<open>noise\<close> is called after the real images
  have been saved and before a generator is read, so its error leaves the real images
  saved and no network touched.
\<close>

definition save_images ::
  "'v trainer \<Rightarrow> int \<Rightarrow> 'v tensor \<Rightarrow> int \<Rightarrow> loader \<Rightarrow> string \<Rightarrow> string option \<Rightarrow>
   'v world \<Rightarrow> (py_error + unit) \<times> 'v world" where
  "save_images self batch_size input_var iter loader path_fake path_real w =
     (if dataset_has_save_images loader then
        let w = (if iter = 0 \<and> truthy_path path_real
                 then save_call (DatasetSave input_var (the path_real)) w else w)
        in case latent self batch_size input_var of
             Inl e \<Rightarrow> (Inl e, w)
           | Inr z \<Rightarrow>
               (case generate self z w of
                  (Inl e, w) \<Rightarrow> (Inl e, w)
                | (Inr generated_output, w) \<Rightarrow>
                    let print_discriminator =
                          get_flag (logging_print_discriminator (cc_settings self))
                    in if print_discriminator then
                         (case population_dis self of
                            [] \<Rightarrow> (Inl IndexError, w)
                          | d0 # _ \<Rightarrow>
                              (Inr (), save_call (DatasetSaveDiscr generated_output path_fake
                                                    (Some (genome d0))) w))
                       else (Inr (), save_call (DatasetSaveDiscr generated_output path_fake
                                                  None) w))
      else
        let shape = dataset_train_data_shape loader;
            w = (if iter = 0 \<and> truthy_path path_real
                 then save_call (DataloaderSave input_var shape (the path_real)) w else w)
        in case noise batch_size (gen_input_size self) of
             Inl e \<Rightarrow> (Inl e, w)
           | Inr z \<Rightarrow>
               (case population_gen self of
                  [] \<Rightarrow> (Inl IndexError, w)
                | g0 # _ \<Rightarrow>
                    let gen = net (genome g0);
                        w = eval_mode gen w;
                        generated_output = Forward gen z;
                        w = save_call (DataloaderSave generated_output shape path_fake) w;
                        w = train_mode gen w
                    in (Inr (), w)))"

section \<open>log_results\<close>

text \<open>
  Lines 38-59. \<open>fmt\<close> is \<^verbatim>\<open>'{}'.format\<close> on a keyword argument's value and
  \<open>fmt_float\<close> is \<^verbatim>\<open>'{}'.format(float(x))\<close> on a fitness; \<open>append_s\<close> is the
  source's string \<^verbatim>\<open>append\<close>. A fitness is taken to be a number, so that
  \<^verbatim>\<open>float\<close> does not raise. The arguments of the message are evaluated before
  it is logged, so an empty population raises before anything is logged or saved.
\<close>

definition log_message :: "int \<Rightarrow> string \<Rightarrow> string \<Rightarrow> string \<Rightarrow> string" where
  "log_message n fg fd append_s =
     ''Iteration='' @ str_int n @ '', f(Generator(x))='' @ fg @
     '', f(Discriminator(x))='' @ fd @ append_s"

text \<open>Lines 39-41: the keyword arguments, formatted for the end of the message.\<close>

definition format_kwargs :: "('v \<Rightarrow> string) \<Rightarrow> (string \<times> 'v) list \<Rightarrow> string" where
  "format_kwargs fmt kwargs =
     (let append_s = str_join '', '' (map (\<lambda>(key, value). key @ ''='' @ fmt value) kwargs)
      in if append_s \<noteq> [] then '', '' @ append_s else append_s)"

definition log_results ::
  "('v \<Rightarrow> string) \<Rightarrow> ('v \<Rightarrow> string) \<Rightarrow> 'v trainer \<Rightarrow> int \<Rightarrow> int \<Rightarrow> 'v tensor \<Rightarrow> loader \<Rightarrow>
   (string \<times> 'v) list \<Rightarrow> 'v world \<Rightarrow> (py_error + string \<times> string) \<times> 'v world" where
  "log_results fmt fmt_float self batch_size iter input_var loader kwargs w =
     (let append_s = format_kwargs fmt kwargs
      in case population_gen self of
           [] \<Rightarrow> (Inl IndexError, w)
         | g0 # _ \<Rightarrow>
             (case population_dis self of
                [] \<Rightarrow> (Inl IndexError, w)
              | d0 # _ \<Rightarrow>
                  let w = w\<lparr>logged := logged w @
                             [log_message (iter + 1) (fmt_float (fitness g0))
                                (fmt_float (fitness d0)) append_s]\<rparr>;
                      sample_count = dataloader_sample_count (cc_settings self);
                      batch_size = (case sample_count of
                                      None \<Rightarrow> min batch_size 128
                                    | Some n \<Rightarrow> if n \<noteq> 0 then n else min batch_size 128);
                      image_format = logging_image_format (cc_settings self);
                      path_real = path_join (cc_output_dir self) (''real_images.'' @ image_format);
                      path_fake = path_join (cc_output_dir self)
                                    (''fake_images-'' @ str_int (iter + 1) @ ''.'' @ image_format)
                  in (case save_images self batch_size input_var iter loader path_fake
                             (Some path_real) w of
                        (Inl e, w) \<Rightarrow> (Inl e, w)
                      | (Inr u, w) \<Rightarrow> (Inr (path_real, path_fake), w))))"

section \<open>Reading the results\<close>

text \<open>
  An entry of an \<^verbatim>\<open>'individuals'\<close> list records an individual when it is a
  dictionary holding that individual's id, locality flag, fitness and source.
\<close>

definition entry_records :: "'v pyval \<Rightarrow> 'v individual \<Rightarrow> bool" where
  "entry_records e individual =
     (case e of
        PDict d \<Rightarrow>
          dict_get d ''id'' = Some (PObj (id_attr individual)) \<and>
          dict_get d ''is_local'' = Some (PBool (is_local individual)) \<and>
          dict_get d ''fitness'' = Some (PObj (fitness individual)) \<and>
          dict_get d ''source'' = Some (PObj (source individual))
      | _ \<Rightarrow> False)"

text \<open>The entries recorded under a population's \<^verbatim>\<open>'individuals'\<close> key, if any.\<close>

definition recorded_entries :: "'v pydict \<Rightarrow> 'v pyval list" where
  "recorded_entries info =
     (case dict_get info ''individuals'' of Some (PList es) \<Rightarrow> es | _ \<Rightarrow> [])"

definition carries_source_and_flag :: "'v pyval \<Rightarrow> 'v individual \<Rightarrow> bool" where
  "carries_source_and_flag e individual =
     (case e of
        PDict d \<Rightarrow>
          dict_get d ''source'' = Some (PObj (source individual)) \<and>
          dict_get d ''is_local'' = Some (PBool (is_local individual))
      | _ \<Rightarrow> False)"

text \<open>
  What a population's dictionary says about fitness and learning rate: one learning rate
  for the population, formatted from its first individual, and in each entry the fitness
  of the entry's individual and no learning rate.
\<close>

definition entry_fitness_only :: "'v pyval \<Rightarrow> 'v individual \<Rightarrow> bool" where
  "entry_fitness_only e individual =
     (case e of
        PDict d \<Rightarrow>
          dict_get d ''fitness'' = Some (PObj (fitness individual)) \<and>
          dict_get d ''learning_rate'' = None
      | _ \<Rightarrow> False)"

definition population_rates :: "('v \<Rightarrow> string) \<Rightarrow> 'v pydict \<Rightarrow> 'v individual list \<Rightarrow> bool" where
  "population_rates fmt info individuals =
     (if individuals = [] then info = []
      else dict_get info ''learning_rate'' = Some (PStr (fmt (learning_rate (individuals ! 0)))) \<and>
           list_all2 entry_fitness_only (recorded_entries info) individuals)"

text \<open>
  The networks on which \<^verbatim>\<open>save_images\<close> calls \<^verbatim>\<open>eval()\<close> (lines 75-77, 81-82
  and 98-99): the first \<^verbatim>\<open>min(len, 5)\<close> generators when several are printed, the
  first generator otherwise.
\<close>

definition evaluated_nets :: "'v trainer \<Rightarrow> loader \<Rightarrow> nat set" where
  "evaluated_nets self loader =
     (if dataset_has_save_images loader \<and>
         get_flag (logging_print_multiple_generators (cc_settings self))
      then (\<lambda>i. net (genome i)) ` set (take 5 (population_gen self))
      else (case population_gen self of [] \<Rightarrow> {} | g0 # _ \<Rightarrow> {net (genome g0)}))"

text \<open>
  The number of samples in a tensor (its first dimension) where the way it was built
  determines it: \<^verbatim>\<open>noise(n, m)\<close> has \<open>n\<close> rows, \<^verbatim>\<open>unsqueeze(1)\<close> and
  \<^verbatim>\<open>repeat(1, _, _)\<close> keep the first dimension, and a generator returns one sample
  for each latent vector.
\<close>

fun n_samples :: "'v tensor \<Rightarrow> int option" where
  "n_samples (Input x) = None"
| "n_samples (Noise n m) = Some n"
| "n_samples (Unsqueeze t d) = (if d = 1 then n_samples t else None)"
| "n_samples (Repeat t d0 d1 d2) = (if d0 = Lit 1 then n_samples t else None)"
| "n_samples (Forward g t) = n_samples t"

text \<open>The tensors handed to an image-saving call, and the path it is given.\<close>

fun call_tensors :: "'v save_call \<Rightarrow> 'v tensor list" where
  "call_tensors (DatasetSave t p) = [t]"
| "call_tensors (DatasetSaveDiscr (Single t) p d) = [t]"
| "call_tensors (DatasetSaveDiscr (Many ts) p d) = ts"
| "call_tensors (DataloaderSave t s p) = [t]"

fun call_path :: "'v save_call \<Rightarrow> string" where
  "call_path (DatasetSave t p) = p"
| "call_path (DatasetSaveDiscr out p d) = p"
| "call_path (DataloaderSave t s p) = p"

section \<open>Concrete inputs\<close>

text \<open>
  Concrete Python objects for the examples: integers and strings, with
  \<^verbatim>\<open>'{}'.format\<close> on them. An integer of absolute value at most \<open>2 ^ 53\<close> is a
  float exactly and \<^verbatim>\<open>'{}'.format(float(n))\<close> prints its digits and
  \<^verbatim>\<open>.0\<close>; the examples format no other fitness, and beyond that range, as for a
  string, \<open>py_format_float\<close> is left as \<open>py_format\<close>.
\<close>

datatype pyobj = PyInt int | PyStr string

fun py_format :: "pyobj \<Rightarrow> string" where
  "py_format (PyInt n) = str_int n"
| "py_format (PyStr s) = s"

fun py_format_float :: "pyobj \<Rightarrow> string" where
  "py_format_float (PyInt n) =
     (if \<bar>n\<bar> \<le> 2 ^ 53 then str_int n @ ''.0'' else str_int n)"
| "py_format_float (PyStr s) = s"

definition ex_individual :: "string \<Rightarrow> bool \<Rightarrow> int \<Rightarrow> int \<Rightarrow> nat \<Rightarrow> pyobj individual" where
  "ex_individual name local fit lr g =
     \<lparr>id_attr = PyStr name, is_local = local, fitness = PyInt fit,
      source = PyStr ''127.0.0.1:5000'', learning_rate = PyInt lr, iteration = PyInt 7,
      genome = Genome g\<rparr>"

definition ex_generators :: "pyobj individual list" where
  "ex_generators = [ex_individual ''g0'' True 3 1 0, ex_individual ''g1'' False 5 2 1]"

definition ex_discriminators :: "pyobj individual list" where
  "ex_discriminators = [ex_individual ''d0'' True 4 1 10]"

text \<open>The weights of the network at reference \<open>g\<close>, named by that reference.\<close>

definition ex_state_dict :: "nat \<Rightarrow> nat" where
  "ex_state_dict g = g"

definition ex_settings :: "bool \<Rightarrow> settings" where
  "ex_settings multi =
     \<lparr>dataloader_sample_count = None, dataloader_dataset_name = ''mnist'',
      logging_image_format = ''jpg'',
      logging_print_multiple_generators = (if multi then Some True else None),
      logging_print_discriminator = None\<rparr>"

definition ex_trainer :: "pyobj individual list \<Rightarrow> bool \<Rightarrow> pyobj trainer" where
  "ex_trainer gens multi =
     \<lparr>population_gen = gens,
      population_dis = ex_discriminators,
      cc_settings = ex_settings multi, cc_output_dir = ''out'', gen_input_size = 64\<rparr>"

text \<open>The example trainer, one generator printed, with \<^verbatim>\<open>sample_count\<close> set.\<close>

definition ex_trainer_count :: "int \<Rightarrow> pyobj trainer" where
  "ex_trainer_count n =
     \<lparr>population_gen = ex_generators,
      population_dis = ex_discriminators,
      cc_settings = (ex_settings False)\<lparr>dataloader_sample_count := Some n\<rparr>,
      cc_output_dir = ''out'', gen_input_size = 64\<rparr>"

definition ex_loader :: loader where
  "ex_loader = \<lparr>dataset_has_save_images = True, dataset_train_data_shape = None\<rparr>"

text \<open>A world with nothing logged or saved, and every network in the given mode.\<close>

definition ex_world :: "bool \<Rightarrow> pyobj world" where
  "ex_world mode = \<lparr>training = (\<lambda>g. mode), logged = [], saved = []\<rparr>"

section \<open>Decimal strings and paths\<close>

lemma digit_cases: "d < 10 \<Longrightarrow> d \<in> {0, 1, 2, 3, 4, 5, 6, 7, 8, 9::nat}"
  by auto

lemma of_char_digit: "d < 10 \<Longrightarrow> of_char (digit_char d) = 48 + d"
  using digit_cases [of d] by (auto simp: digit_char_def)

lemma str_nat_value:
  "foldl (\<lambda>a ch. 10 * a + (of_char ch - 48)) 0 (str_nat n) = n"
proof (induction n rule: str_nat.induct)
  case (1 n)
  show ?case
  proof (cases "n < 10")
    case True
    then show ?thesis
      by (subst str_nat.simps) (simp add: of_char_digit)
  next
    case False
    have "n mod 10 < 10" by simp
    then have d: "of_char (digit_char (n mod 10)) = 48 + n mod 10"
      by (rule of_char_digit)
    from False 1 show ?thesis
      by (subst str_nat.simps) (simp add: d)
  qed
qed

lemma str_nat_inj: "str_nat m = str_nat n \<Longrightarrow> m = n"
  by (metis str_nat_value)

lemma str_nat_nonempty: "str_nat n \<noteq> []"
  by (subst str_nat.simps) simp

lemma pkl_filename_inj:
  "pkl_filename prefix c k = pkl_filename prefix c k' \<Longrightarrow> k = k'"
  by (simp add: pkl_filename_def str_nat_inj)

lemma path_join_relative:
  "p \<noteq> [] \<Longrightarrow> hd p \<noteq> CHR ''/'' \<Longrightarrow>
   path_join a p = (if a = [] \<or> last a = CHR ''/'' then a else a @ ''/'') @ p"
  by (simp add: path_join_def)

lemma str_int_nonempty: "str_int c \<noteq> []"
  by (simp add: str_int_def str_nat_nonempty)

lemma path_join_inj:
  "p \<noteq> [] \<Longrightarrow> q \<noteq> [] \<Longrightarrow> hd p = hd q \<Longrightarrow> path_join a p = path_join a q \<Longrightarrow> p = q"
  by (auto simp: path_join_def split: if_splits)

lemma pkl_filename_hd: "hd (pkl_filename pre c k) = hd (pre @ str_int c)"
  by (cases pre; cases "str_int c") (simp_all add: pkl_filename_def str_int_nonempty)

lemma pkl_filename_nonempty: "pkl_filename pre c k \<noteq> []"
  by (simp add: pkl_filename_def)

lemma pkl_path_inj:
  "path_join out (pkl_filename pre c k) = path_join out (pkl_filename pre c k') \<Longrightarrow> k = k'"
  by (rule pkl_filename_inj, rule path_join_inj [of _ _ out])
     (simp_all add: pkl_filename_nonempty pkl_filename_hd)

section \<open>The checkpoint loop and its files\<close>

lemma indiv_dict_eq:
  "indiv_dict i = [(''id'', PObj (id_attr i)), (''is_local'', PBool (is_local i)),
                   (''fitness'', PObj (fitness i)), (''source'', PObj (source i))]"
  by (simp add: indiv_dict_def dict_set_def)

lemma indiv_is_local: "dict_get (indiv_dict i) ''is_local'' = Some (PBool True) \<longleftrightarrow> is_local i"
  by (simp add: indiv_dict_eq dict_get_def)

lemma loop_infos:
  "fst (individuals_loop sd out pre c inds (infos, l, fs)) =
     infos @ map (\<lambda>i. PDict (indiv_dict i)) inds"
  by (induction inds arbitrary: infos l fs) (simp_all add: Let_def)

lemma loop_files_other:
  "(\<And>k. l \<le> k \<Longrightarrow> k < l + length (filter is_local inds) \<Longrightarrow>
         p \<noteq> path_join out (pkl_filename pre c k)) \<Longrightarrow>
   snd (snd (individuals_loop sd out pre c inds (infos, l, fs))) p = fs p"
proof (induction inds arbitrary: infos l fs)
  case Nil
  then show ?case by simp
next
  case (Cons i inds)
  show ?case
  proof (cases "is_local i")
    case True
    have here: "p \<noteq> path_join out (pkl_filename pre c l)"
      using Cons.prems [of l] True by simp
    have rest: "snd (snd (individuals_loop sd out pre c inds
                  (infos @ [PDict (indiv_dict i)], Suc l,
                   fs(path_join out (pkl_filename pre c l) \<mapsto> PickleFile (sd (net (genome i))))))) p
                = (fs(path_join out (pkl_filename pre c l) \<mapsto> PickleFile (sd (net (genome i))))) p"
      by (rule Cons.IH) (use Cons.prems True in simp)
    from True here rest show ?thesis
      by (simp add: Let_def indiv_is_local)
  next
    case False
    have "snd (snd (individuals_loop sd out pre c inds
                  (infos @ [PDict (indiv_dict i)], l, fs))) p = fs p"
      by (rule Cons.IH) (use Cons.prems False in simp)
    with False show ?thesis
      by (simp add: Let_def indiv_is_local)
  qed
qed

lemma loop_files_local:
  "k < length (filter is_local inds) \<Longrightarrow>
   snd (snd (individuals_loop sd out pre c inds (infos, l, fs)))
     (path_join out (pkl_filename pre c (l + k))) =
   Some (PickleFile (sd (net (genome (filter is_local inds ! k)))))"
proof (induction inds arbitrary: infos l fs k)
  case Nil
  then show ?case by simp
next
  case (Cons i inds)
  show ?case
  proof (cases "is_local i")
    case True
    let ?fs = "fs(path_join out (pkl_filename pre c l) \<mapsto> PickleFile (sd (net (genome i))))"
    let ?infos = "infos @ [PDict (indiv_dict i)]"
    show ?thesis
    proof (cases k)
      case 0
      have "snd (snd (individuals_loop sd out pre c inds (?infos, Suc l, ?fs)))
              (path_join out (pkl_filename pre c l)) = ?fs (path_join out (pkl_filename pre c l))"
      proof (rule loop_files_other)
        fix k' assume "Suc l \<le> k'"
        then have "l \<noteq> k'" by simp
        then show "path_join out (pkl_filename pre c l) \<noteq> path_join out (pkl_filename pre c k')"
          using pkl_path_inj by blast
      qed
      with True 0 show ?thesis
        by (simp add: Let_def indiv_is_local)
    next
      case (Suc k')
      with Cons.prems True have "k' < length (filter is_local inds)" by simp
      then have "snd (snd (individuals_loop sd out pre c inds (?infos, Suc l, ?fs)))
                   (path_join out (pkl_filename pre c (Suc l + k'))) =
                 Some (PickleFile (sd (net (genome (filter is_local inds ! k')))))"
        by (rule Cons.IH)
      with True Suc show ?thesis
        by (simp add: Let_def indiv_is_local)
    qed
  next
    case False
    with Cons.prems have "k < length (filter is_local inds)" by simp
    then have "snd (snd (individuals_loop sd out pre c inds (infos @ [PDict (indiv_dict i)], l, fs)))
                 (path_join out (pkl_filename pre c (l + k))) =
               Some (PickleFile (sd (net (genome (filter is_local inds ! k)))))"
      by (rule Cons.IH)
    with False show ?thesis
      by (simp add: Let_def indiv_is_local)
  qed
qed


lemma info_empty: "get_individuals_information fmt sd out [] pre c fs = ([], fs)"
  by (simp add: get_individuals_information_def)

lemma info_files:
  "snd (get_individuals_information fmt sd out inds pre c fs) =
   snd (snd (individuals_loop sd out pre c inds ([], 0, fs)))"
  by (cases inds) (simp_all add: get_individuals_information_def Let_def split: prod.splits)

lemma info_dict:
  "inds \<noteq> [] \<Longrightarrow>
   fst (get_individuals_information fmt sd out inds pre c fs) =
     [(''learning_rate'', PStr (fmt (learning_rate (inds ! 0)))),
      (''individuals'', PList (map (\<lambda>i. PDict (indiv_dict i)) inds))]"
  using loop_infos [of sd out pre c inds "[]" 0 fs]
  by (auto simp: get_individuals_information_def Let_def dict_set_def split: prod.splits)

lemma info_files_other:
  "(\<And>k. k < length (filter is_local inds) \<Longrightarrow> p \<noteq> path_join out (pkl_filename pre c k)) \<Longrightarrow>
   snd (get_individuals_information fmt sd out inds pre c fs) p = fs p"
  unfolding info_files by (rule loop_files_other) simp

lemma info_files_local:
  "k < length (filter is_local inds) \<Longrightarrow>
   snd (get_individuals_information fmt sd out inds pre c fs) (path_join out (pkl_filename pre c k)) =
   Some (PickleFile (sd (net (genome (filter is_local inds ! k)))))"
  unfolding info_files using loop_files_local [of k inds sd out pre c "[]" 0 fs] by simp

lemma save_checkpoint_ok:
  "generators \<noteq> [] \<Longrightarrow>
   save_checkpoint fmt sd out now generators discriminators c pos gsz fs =
   (Inr (),
    (snd (get_individuals_information fmt sd out discriminators DISCRIMINATOR_PREFIX c
       (snd (get_individuals_information fmt sd out generators GENERATOR_PREFIX c fs))))
    (checkpoint_path out c \<mapsto> YamlFile (PDict
       [(''time'', PStr now),
        (''generators'', PDict (fst (get_individuals_information fmt sd out generators
                                       GENERATOR_PREFIX c fs))),
        (''discriminators'', PDict (fst (get_individuals_information fmt sd out discriminators
                                       DISCRIMINATOR_PREFIX c
                                       (snd (get_individuals_information fmt sd out generators
                                          GENERATOR_PREFIX c fs))))),
        (''id'', PInt c),
        (''iteration'', PObj (iteration (generators ! 0))),
        (''position'', PDict [(''x'', PInt (fst pos)), (''y'', PInt (snd pos))]),
        (''grid_size'', PInt gsz)])))"
  by (cases generators)
     (simp_all add: save_checkpoint_def Let_def dict_set_def split: prod.splits)

lemma save_checkpoint_err:
  "save_checkpoint fmt sd out now [] discriminators c pos gsz fs =
   (Inl IndexError, snd (get_individuals_information fmt sd out discriminators DISCRIMINATOR_PREFIX c fs))"
  by (simp add: save_checkpoint_def Let_def info_empty split: prod.splits)

section \<open>Modes, messages and image-saving calls\<close>

lemma eval_then_train:
  "train_mode g (eval_mode g w) = w\<lparr>training := (training w)(g := True)\<rparr>"
  by (simp add: train_mode_def eval_mode_def)

lemma multi_fold:
  "n \<le> length (population_gen self) \<Longrightarrow>
   fold (multi_step self z) [0 ..< n] (outs, w) =
     (outs @ map (\<lambda>i. Forward (net (genome i)) z) (take n (population_gen self)),
      w\<lparr>training := (\<lambda>g. g \<in> (\<lambda>i. net (genome i)) ` set (take n (population_gen self)) \<or> training w g)\<rparr>)"
proof (induction n)
  case 0
  then show ?case by simp
next
  case (Suc n)
  then have n: "n < length (population_gen self)" by simp
  then have tk: "take (Suc n) (population_gen self) = take n (population_gen self) @ [population_gen self ! n]"
    by (simp add: take_Suc_conv_app_nth)
  from Suc have IH: "fold (multi_step self z) [0 ..< n] (outs, w) =
     (outs @ map (\<lambda>i. Forward (net (genome i)) z) (take n (population_gen self)),
      w\<lparr>training := (\<lambda>g. g \<in> (\<lambda>i. net (genome i)) ` set (take n (population_gen self)) \<or> training w g)\<rparr>)"
    by simp
  have "fold (multi_step self z) [0 ..< Suc n] (outs, w) =
        multi_step self z n (fold (multi_step self z) [0 ..< n] (outs, w))"
    by simp
  also have "\<dots> = multi_step self z n
     (outs @ map (\<lambda>i. Forward (net (genome i)) z) (take n (population_gen self)),
      w\<lparr>training := (\<lambda>g. g \<in> (\<lambda>i. net (genome i)) ` set (take n (population_gen self)) \<or> training w g)\<rparr>)"
    by (simp only: IH)
  also have "\<dots> =
     (outs @ map (\<lambda>i. Forward (net (genome i)) z) (take (Suc n) (population_gen self)),
      w\<lparr>training := (\<lambda>g. g \<in> (\<lambda>i. net (genome i)) ` set (take (Suc n) (population_gen self)) \<or> training w g)\<rparr>)"
    by (auto simp: tk multi_step_def Let_def eval_then_train fun_eq_iff)
  finally show ?case .
qed

lemma generate_multi:
  "get_flag (logging_print_multiple_generators (cc_settings self)) \<Longrightarrow>
   generate self z w =
     (Inr (Many (map (\<lambda>i. Forward (net (genome i)) z) (take 5 (population_gen self)))),
      w\<lparr>training := (\<lambda>g. g \<in> (\<lambda>i. net (genome i)) ` set (take 5 (population_gen self)) \<or> training w g)\<rparr>)"
proof -
  have m: "take (min (length (population_gen self)) 5) (population_gen self) = take 5 (population_gen self)"
    by (simp add: min_def)
  assume "get_flag (logging_print_multiple_generators (cc_settings self))"
  then show ?thesis
    using multi_fold [of "min (length (population_gen self)) 5" self z "[]" w]
    by (simp add: generate_def m)
qed

lemma generate_single:
  "\<not> get_flag (logging_print_multiple_generators (cc_settings self)) \<Longrightarrow>
   population_gen self = g0 # gs \<Longrightarrow>
   generate self z w =
     (Inr (Single (Forward (net (genome g0)) z)),
      w\<lparr>training := (\<lambda>g. g = net (genome g0) \<or> training w g)\<rparr>)"
  by (simp add: generate_def Let_def eval_then_train fun_eq_iff)

lemma generate_single_err:
  "\<not> get_flag (logging_print_multiple_generators (cc_settings self)) \<Longrightarrow>
   population_gen self = [] \<Longrightarrow> generate self z w = (Inl IndexError, w)"
  by (simp add: generate_def)


lemma generate_modes:
  "generate self z w = (Inr out, w') \<Longrightarrow>
   training w' =
     (\<lambda>g. g \<in> (if get_flag (logging_print_multiple_generators (cc_settings self))
                 then (\<lambda>i. net (genome i)) ` set (take 5 (population_gen self))
                 else (case population_gen self of [] \<Rightarrow> {} | g0 # _ \<Rightarrow> {net (genome g0)}))
          \<or> training w g) \<and>
   logged w' = logged w \<and> saved w' = saved w"
proof (cases "get_flag (logging_print_multiple_generators (cc_settings self))")
  case True
  assume "generate self z w = (Inr out, w')"
  with True show ?thesis
    by (auto simp: generate_multi)
next
  case False
  assume g: "generate self z w = (Inr out, w')"
  show ?thesis
  proof (cases "population_gen self")
    case Nil
    with False g show ?thesis by (simp add: generate_single_err)
  next
    case (Cons g0 gs)
    with False g show ?thesis
      by (auto simp: generate_single)
  qed
qed

lemma save_call_fields [simp]:
  "training (save_call c w) = training w"
  "logged (save_call c w) = logged w"
  "saved (save_call c w) = saved w @ [c]"
  by (simp_all add: save_call_def)

lemma noise_ok: "0 \<le> n \<Longrightarrow> 0 \<le> m \<Longrightarrow> noise n m = Inr (Noise n m)"
  by (simp add: noise_def)

lemma latent_ok:
  "0 \<le> n \<Longrightarrow> 0 \<le> gen_input_size self \<Longrightarrow>
   latent self n x = Inr (expand_sequence self x (Noise n (gen_input_size self)))"
  by (simp add: latent_def noise_ok)

lemma n_samples_expand: "n_samples (expand_sequence self x z) = n_samples z"
  by (simp add: expand_sequence_def Let_def)

lemma sample_count_cases:
  "(case sc of None \<Rightarrow> min b 128 | Some n \<Rightarrow> if n \<noteq> 0 then n else min b (128::int)) =
   (if sc = None \<or> sc = Some 0 then min b 128 else the sc)"
  by (cases sc) auto

lemma save_images_modes:
  assumes "save_images self n x iter loader pf pr w = (Inr (), w')"
  shows "training w' = (\<lambda>g. g \<in> evaluated_nets self loader \<or> training w g)"
proof (cases "dataset_has_save_images loader")
  case True
  let ?w1 = "if iter = 0 \<and> truthy_path pr then save_call (DatasetSave x (the pr)) w else w"
  have t1: "training ?w1 = training w" by simp
  from assms True obtain z out w2 where
    g: "generate self z ?w1 = (Inr out, w2)" and t2: "training w' = training w2"
    by (auto simp: save_images_def Let_def split: prod.splits sum.splits if_splits list.splits)
  from generate_modes [OF g] t1 t2 True show ?thesis
    by (simp add: evaluated_nets_def)
next
  case False
  with assms show ?thesis
    by (auto simp: save_images_def Let_def evaluated_nets_def eval_mode_def train_mode_def
          fun_eq_iff split: list.splits if_splits sum.splits)
qed


lemma save_images_ok:
  assumes gens: "population_gen self = g0 # gs" and dis: "population_dis self = d0 # ds"
    and n0: "0 \<le> n" and m0: "0 \<le> gen_input_size self"
  shows "\<exists>w'. save_images self n x iter loader pf pr w = (Inr (), w') \<and>
           logged w' = logged w \<and>
           saved w' = saved w @
             (if iter = 0 \<and> truthy_path pr
              then [if dataset_has_save_images loader then DatasetSave x (the pr)
                    else DataloaderSave x (dataset_train_data_shape loader) (the pr)]
              else []) @
             [if dataset_has_save_images loader
              then DatasetSaveDiscr
                     (if get_flag (logging_print_multiple_generators (cc_settings self))
                      then Many (map (\<lambda>i. Forward (net (genome i))
                                     (expand_sequence self x (Noise n (gen_input_size self))))
                                   (take 5 (population_gen self)))
                      else Single (Forward (net (genome g0))
                                     (expand_sequence self x (Noise n (gen_input_size self)))))
                     pf
                     (if get_flag (logging_print_discriminator (cc_settings self))
                      then Some (genome d0) else None)
              else DataloaderSave (Forward (net (genome g0)) (Noise n (gen_input_size self)))
                     (dataset_train_data_shape loader) pf]"
proof (cases "dataset_has_save_images loader")
  case True
  show ?thesis
  proof (cases "get_flag (logging_print_multiple_generators (cc_settings self))")
    case multi: True
    from True multi dis show ?thesis
      by (simp add: save_images_def Let_def generate_multi latent_ok [OF n0 m0])
  next
    case single: False
    from True single gens dis show ?thesis
      by (simp add: save_images_def Let_def generate_single [OF single gens]
            latent_ok [OF n0 m0])
  qed
next
  case False
  with gens show ?thesis
    by (simp add: save_images_def Let_def eval_mode_def train_mode_def noise_ok [OF n0 m0])
qed

lemma log_results_ok:
  assumes gens: "population_gen self = g0 # gs" and dis: "population_dis self = d0 # ds"
    and n0: "0 \<le> (case dataloader_sample_count (cc_settings self) of
                    None \<Rightarrow> min b 128 | Some n \<Rightarrow> if n \<noteq> 0 then n else min b 128)"
    and m0: "0 \<le> gen_input_size self"
  shows "\<exists>w'. log_results fmt ff self b iter x loader kwargs w =
           (Inr (path_join (cc_output_dir self) (''real_images.'' @ logging_image_format (cc_settings self)),
                 path_join (cc_output_dir self)
                   (''fake_images-'' @ str_int (iter + 1) @ ''.'' @ logging_image_format (cc_settings self))),
            w') \<and>
         save_images self
           (case dataloader_sample_count (cc_settings self) of
              None \<Rightarrow> min b 128 | Some n \<Rightarrow> if n \<noteq> 0 then n else min b 128)
           x iter loader
           (path_join (cc_output_dir self)
              (''fake_images-'' @ str_int (iter + 1) @ ''.'' @ logging_image_format (cc_settings self)))
           (Some (path_join (cc_output_dir self)
              (''real_images.'' @ logging_image_format (cc_settings self))))
           (w\<lparr>logged := logged w @
               [log_message (iter + 1) (ff (fitness g0)) (ff (fitness d0)) (format_kwargs fmt kwargs)]\<rparr>)
         = (Inr (), w')"
proof -
  let ?w1 = "w\<lparr>logged := logged w @
               [log_message (iter + 1) (ff (fitness g0)) (ff (fitness d0)) (format_kwargs fmt kwargs)]\<rparr>"
  let ?n = "case dataloader_sample_count (cc_settings self) of
              None \<Rightarrow> min b 128 | Some n \<Rightarrow> if n \<noteq> 0 then n else min b 128"
  let ?pf = "path_join (cc_output_dir self)
              (''fake_images-'' @ str_int (iter + 1) @ ''.'' @ logging_image_format (cc_settings self))"
  let ?pr = "path_join (cc_output_dir self) (''real_images.'' @ logging_image_format (cc_settings self))"
  from save_images_ok [OF gens dis n0 m0, of x iter loader ?pf "Some ?pr" ?w1]
  obtain w' where "save_images self ?n x iter loader ?pf (Some ?pr) ?w1 = (Inr (), w')"
    by blast
  with gens dis show ?thesis
    by (simp add: log_results_def Let_def)
qed

section \<open>What a checkpoint holds, and where\<close>

lemma entry_records_indiv: "entry_records (PDict (indiv_dict i)) i"
  by (simp add: entry_records_def indiv_dict_eq dict_get_def)

lemma carries_indiv: "carries_source_and_flag (PDict (indiv_dict i)) i"
  by (simp add: carries_source_and_flag_def indiv_dict_eq dict_get_def)

lemma fitness_only_indiv: "entry_fitness_only (PDict (indiv_dict i)) i"
  by (simp add: entry_fitness_only_def indiv_dict_eq dict_get_def)

lemma info_entries:
  "inds \<noteq> [] \<Longrightarrow>
   dict_get (fst (get_individuals_information fmt sd out inds pre c fs)) ''individuals'' =
     Some (PList (map (\<lambda>i. PDict (indiv_dict i)) inds))"
  by (simp add: info_dict dict_get_def)

lemma info_recorded:
  "recorded_entries (fst (get_individuals_information fmt sd out inds pre c fs)) =
     map (\<lambda>i. PDict (indiv_dict i)) inds"
proof (cases "inds = []")
  case True
  then show ?thesis by (simp add: info_empty recorded_entries_def dict_get_def)
next
  case False
  then show ?thesis by (simp add: info_entries recorded_entries_def)
qed

lemma info_learning_rate:
  "inds \<noteq> [] \<Longrightarrow>
   dict_get (fst (get_individuals_information fmt sd out inds pre c fs)) ''learning_rate'' =
     Some (PStr (fmt (learning_rate (inds ! 0))))"
  by (simp add: info_dict dict_get_def)

lemma info_population_rates:
  "population_rates fmt (fst (get_individuals_information fmt sd out inds pre c fs)) inds"
  by (cases "inds = []")
     (simp_all add: population_rates_def info_empty info_learning_rate info_recorded
        list_all2_map1 list_all2_same fitness_only_indiv)

lemma generator_filename_head:
  "pkl_filename GENERATOR_PREFIX c k \<noteq> []"
  "hd (pkl_filename GENERATOR_PREFIX c k) = CHR ''g''"
  by (simp_all add: pkl_filename_def GENERATOR_PREFIX_def)

lemma discriminator_filename_head:
  "pkl_filename DISCRIMINATOR_PREFIX c k \<noteq> []"
  "hd (pkl_filename DISCRIMINATOR_PREFIX c k) = CHR ''d''"
  by (simp_all add: pkl_filename_def DISCRIMINATOR_PREFIX_def)

lemma path_join_heads_differ:
  "p \<noteq> [] \<Longrightarrow> q \<noteq> [] \<Longrightarrow> hd p \<noteq> CHR ''/'' \<Longrightarrow> hd q \<noteq> CHR ''/'' \<Longrightarrow> hd p \<noteq> hd q \<Longrightarrow>
   path_join a p \<noteq> path_join a q"
  by (auto simp: path_join_relative)

lemma generator_path_not_checkpoint:
  "path_join out (pkl_filename GENERATOR_PREFIX c k) \<noteq> checkpoint_path out c'"
  unfolding checkpoint_path_def
  by (rule path_join_heads_differ)
     (simp_all add: generator_filename_head)

lemma discriminator_path_not_checkpoint:
  "path_join out (pkl_filename DISCRIMINATOR_PREFIX c k) \<noteq> checkpoint_path out c'"
  unfolding checkpoint_path_def
  by (rule path_join_heads_differ)
     (simp_all add: discriminator_filename_head)

lemma generator_path_not_discriminator:
  "path_join out (pkl_filename GENERATOR_PREFIX c k) \<noteq>
   path_join out (pkl_filename DISCRIMINATOR_PREFIX c' k')"
  by (rule path_join_heads_differ)
     (simp_all add: generator_filename_head discriminator_filename_head)

section \<open>Claims about save_checkpoint\<close>

text \<open>
  Claim C1. For every call to \<^verbatim>\<open>save_checkpoint\<close> with a non-empty generators
  list and a non-empty discriminators list, the checkpoint written holds, under
  \<^verbatim>\<open>'generators'\<close> and under \<^verbatim>\<open>'discriminators'\<close>, an
  \<^verbatim>\<open>'individuals'\<close> list with exactly one entry per individual of the input
  population, in the order of the population, and the entry at each position records
  the id, the \<^verbatim>\<open>is_local\<close> flag, the fitness and the source of the individual at
  that position.
\<close>

theorem save_checkpoint_lists_individuals:
  assumes "generators \<noteq> []" and "discriminators \<noteq> []"
  shows "\<exists>files' doc gen_info gen_entries dis_info dis_entries.
           save_checkpoint fmt sd out now generators discriminators c pos gsz files = (Inr (), files') \<and>
           files' (checkpoint_path out c) = Some (YamlFile (PDict doc)) \<and>
           dict_get doc ''generators'' = Some (PDict gen_info) \<and>
           dict_get gen_info ''individuals'' = Some (PList gen_entries) \<and>
           length gen_entries = length generators \<and>
           (\<forall>i < length generators. entry_records (gen_entries ! i) (generators ! i)) \<and>
           dict_get doc ''discriminators'' = Some (PDict dis_info) \<and>
           dict_get dis_info ''individuals'' = Some (PList dis_entries) \<and>
           length dis_entries = length discriminators \<and>
           (\<forall>i < length discriminators. entry_records (dis_entries ! i) (discriminators ! i))"
proof -
  let ?fs1 = "snd (get_individuals_information fmt sd out generators GENERATOR_PREFIX c files)"
  let ?gi = "fst (get_individuals_information fmt sd out generators GENERATOR_PREFIX c files)"
  let ?di = "fst (get_individuals_information fmt sd out discriminators DISCRIMINATOR_PREFIX c ?fs1)"
  have g: "dict_get ?gi ''individuals'' = Some (PList (map (\<lambda>i. PDict (indiv_dict i)) generators))"
    using assms(1) by (rule info_entries)
  have d: "dict_get ?di ''individuals'' = Some (PList (map (\<lambda>i. PDict (indiv_dict i)) discriminators))"
    using assms(2) by (rule info_entries)
  show ?thesis
    unfolding save_checkpoint_ok [OF assms(1)]
    using g d by (simp add: dict_get_def entry_records_indiv)
qed

theorem save_checkpoint_lists_individuals_witness:
  "ex_generators \<noteq> [] \<and> ex_discriminators \<noteq> [] \<and>
   (\<exists>files' doc gen_info gen_entries dis_info dis_entries.
      save_checkpoint py_format ex_state_dict ''out'' ''2020-01-01 00:00:00''
        ex_generators ex_discriminators 3 (0, 1) 4 Map.empty = (Inr (), files') \<and>
      files' (checkpoint_path ''out'' 3) = Some (YamlFile (PDict doc)) \<and>
      dict_get doc ''generators'' = Some (PDict gen_info) \<and>
      dict_get gen_info ''individuals'' = Some (PList gen_entries) \<and>
      length gen_entries = length ex_generators \<and>
      (\<forall>i < length ex_generators. entry_records (gen_entries ! i) (ex_generators ! i)) \<and>
      dict_get doc ''discriminators'' = Some (PDict dis_info) \<and>
      dict_get dis_info ''individuals'' = Some (PList dis_entries) \<and>
      length dis_entries = length ex_discriminators \<and>
      (\<forall>i < length ex_discriminators. entry_records (dis_entries ! i) (ex_discriminators ! i)))"
proof -
  have a: "ex_generators \<noteq> []" by (simp add: ex_generators_def)
  have b: "ex_discriminators \<noteq> []" by (simp add: ex_discriminators_def)
  from a b save_checkpoint_lists_individuals [OF a b, of py_format ex_state_dict "''out''"
      "''2020-01-01 00:00:00''" 3 "(0, 1)" 4 Map.empty]
  show ?thesis by (intro conjI)
qed

text \<open>
  Claim C3. For every call to \<^verbatim>\<open>save_checkpoint\<close> with a non-empty generators
  list, the \<^verbatim>\<open>'iteration'\<close> field of the checkpoint written is the
  \<^verbatim>\<open>iteration\<close> attribute of the first generator of the list.
\<close>

theorem save_checkpoint_iteration:
  assumes "generators \<noteq> []"
  shows "\<exists>files' doc.
           save_checkpoint fmt sd out now generators discriminators c pos gsz files = (Inr (), files') \<and>
           files' (checkpoint_path out c) = Some (YamlFile (PDict doc)) \<and>
           dict_get doc ''iteration'' = Some (PObj (iteration (generators ! 0)))"
  unfolding save_checkpoint_ok [OF assms] by (simp add: dict_get_def)

theorem save_checkpoint_iteration_witness:
  "ex_generators \<noteq> [] \<and>
   (\<exists>files' doc.
      save_checkpoint py_format ex_state_dict ''out'' ''2020-01-01 00:00:00''
        ex_generators ex_discriminators 3 (0, 1) 4 Map.empty = (Inr (), files') \<and>
      files' (checkpoint_path ''out'' 3) = Some (YamlFile (PDict doc)) \<and>
      dict_get doc ''iteration'' = Some (PObj (iteration (ex_generators ! 0)))) \<and>
   iteration (ex_generators ! 0) = PyInt 7"
proof -
  have a: "ex_generators \<noteq> []" by (simp add: ex_generators_def)
  have c: "iteration (ex_generators ! 0) = PyInt 7"
    by (simp add: ex_generators_def ex_individual_def)
  from a c save_checkpoint_iteration [OF a, of py_format ex_state_dict "''out''"
      "''2020-01-01 00:00:00''" ex_discriminators 3 "(0, 1)" 4 Map.empty]
  show ?thesis by (intro conjI)
qed

text \<open>
  Claim C7. Every individual recorded in a checkpoint carries a \<^verbatim>\<open>'source'\<close>
  field and an \<^verbatim>\<open>'is_local'\<close> flag, both copied unchanged from the attributes of
  that individual: whenever \<^verbatim>\<open>save_checkpoint\<close> writes a checkpoint, the entries
  recorded for each population match the population one for one, and each entry holds
  the source and the flag of its individual.
\<close>

theorem checkpoint_copies_source_and_is_local:
  assumes "save_checkpoint fmt sd out now generators discriminators c pos gsz files = (Inr (), files')"
  shows "\<exists>doc gen_info dis_info.
           files' (checkpoint_path out c) = Some (YamlFile (PDict doc)) \<and>
           dict_get doc ''generators'' = Some (PDict gen_info) \<and>
           dict_get doc ''discriminators'' = Some (PDict dis_info) \<and>
           list_all2 carries_source_and_flag (recorded_entries gen_info) generators \<and>
           list_all2 carries_source_and_flag (recorded_entries dis_info) discriminators"
proof -
  from assms have ne: "generators \<noteq> []"
    by (auto simp: save_checkpoint_err)
  from assms show ?thesis
    unfolding save_checkpoint_ok [OF ne]
    by (auto simp: dict_get_def info_recorded list_all2_map1 list_all2_same carries_indiv)
qed

theorem checkpoint_copies_source_and_is_local_witness:
  "save_checkpoint py_format ex_state_dict ''out'' ''2020-01-01 00:00:00''
     ex_generators ex_discriminators 3 (0, 1) 4 Map.empty =
   (Inr (), snd (save_checkpoint py_format ex_state_dict ''out'' ''2020-01-01 00:00:00''
     ex_generators ex_discriminators 3 (0, 1) 4 Map.empty)) \<and>
   (\<exists>doc gen_info dis_info.
      snd (save_checkpoint py_format ex_state_dict ''out'' ''2020-01-01 00:00:00''
        ex_generators ex_discriminators 3 (0, 1) 4 Map.empty) (checkpoint_path ''out'' 3) =
        Some (YamlFile (PDict doc)) \<and>
      dict_get doc ''generators'' = Some (PDict gen_info) \<and>
      dict_get doc ''discriminators'' = Some (PDict dis_info) \<and>
      list_all2 carries_source_and_flag (recorded_entries gen_info) ex_generators \<and>
      list_all2 carries_source_and_flag (recorded_entries dis_info) ex_discriminators)"
proof -
  have ne: "ex_generators \<noteq> []" by (simp add: ex_generators_def)
  have a: "save_checkpoint py_format ex_state_dict ''out'' ''2020-01-01 00:00:00''
     ex_generators ex_discriminators 3 (0, 1) 4 Map.empty =
   (Inr (), snd (save_checkpoint py_format ex_state_dict ''out'' ''2020-01-01 00:00:00''
     ex_generators ex_discriminators 3 (0, 1) 4 Map.empty))"
    by (simp add: save_checkpoint_ok [OF ne])
  from a checkpoint_copies_source_and_is_local [OF a]
  show ?thesis by (intro conjI)
qed

text \<open>The definitions to unfold when a call is evaluated on the example populations.\<close>

lemmas ex_checkpoint_simps =
  save_checkpoint_def get_individuals_information_def Let_def
  ex_generators_def ex_discriminators_def ex_individual_def ex_state_dict_def
  indiv_dict_def dict_set_def dict_get_def checkpoint_path_def
  pkl_filename_def DISCRIMINATOR_PREFIX_def GENERATOR_PREFIX_def path_join_def
  str_int_def str_nat.simps digit_char_def

text \<open>
  Claim C5, amended. For every call to \<^verbatim>\<open>save_checkpoint\<close> with a non-empty
  generators list, cell number \<open>c\<close>, grid position \<open>(x, y)\<close> and grid size \<open>s\<close>, the
  checkpoint is written as YAML to the file \<^verbatim>\<open>checkpoint-<c>.yml\<close> in the output
  directory, and it records \<^verbatim>\<open>'id'\<close> equal to \<open>c\<close>, \<^verbatim>\<open>'position'\<close> with
  \<^verbatim>\<open>'x'\<close> equal to \<open>x\<close> and \<^verbatim>\<open>'y'\<close> equal to \<open>y\<close>, and
  \<^verbatim>\<open>'grid_size'\<close> equal to \<open>s\<close>.
\<close>

theorem save_checkpoint_writes_yaml:
  assumes "generators \<noteq> []"
  shows "\<exists>files' doc position.
           save_checkpoint fmt sd out now generators discriminators c (x, y) gsz files = (Inr (), files') \<and>
           files' (path_join out (''checkpoint-'' @ str_int c @ ''.yml'')) = Some (YamlFile (PDict doc)) \<and>
           dict_get doc ''id'' = Some (PInt c) \<and>
           dict_get doc ''position'' = Some (PDict position) \<and>
           dict_get position ''x'' = Some (PInt x) \<and>
           dict_get position ''y'' = Some (PInt y) \<and>
           dict_get doc ''grid_size'' = Some (PInt gsz)"
  unfolding save_checkpoint_ok [OF assms] by (simp add: dict_get_def checkpoint_path_def)

theorem save_checkpoint_writes_yaml_witness:
  "ex_generators \<noteq> [] \<and>
   (\<exists>files' doc position.
      save_checkpoint py_format ex_state_dict ''out'' ''2020-01-01 00:00:00''
        ex_generators ex_discriminators 3 (0, 1) 4 Map.empty = (Inr (), files') \<and>
      files' (path_join ''out'' (''checkpoint-'' @ str_int 3 @ ''.yml'')) = Some (YamlFile (PDict doc)) \<and>
      dict_get doc ''id'' = Some (PInt 3) \<and>
      dict_get doc ''position'' = Some (PDict position) \<and>
      dict_get position ''x'' = Some (PInt 0) \<and>
      dict_get position ''y'' = Some (PInt 1) \<and>
      dict_get doc ''grid_size'' = Some (PInt 4)) \<and>
   path_join ''out'' (''checkpoint-'' @ str_int 3 @ ''.yml'') = ''out/checkpoint-3.yml''"
proof -
  have a: "ex_generators \<noteq> []" by (simp add: ex_generators_def)
  have p: "path_join ''out'' (''checkpoint-'' @ str_int 3 @ ''.yml'') = ''out/checkpoint-3.yml''"
    by (simp add: path_join_def str_int_def str_nat.simps digit_char_def)
  from a p save_checkpoint_writes_yaml [OF a, of py_format ex_state_dict "''out''"
      "''2020-01-01 00:00:00''" ex_discriminators 3 0 1 4 Map.empty]
  show ?thesis by (intro conjI)
qed

text \<open>
  Claim C5 as stated, for every call: with an empty generators list the call raises
  \<^verbatim>\<open>IndexError\<close> at line 134 and the checkpoint file is not written.
\<close>

theorem save_checkpoint_writes_yaml_counterexample:
  "fst (save_checkpoint py_format ex_state_dict ''out'' ''2020-01-01 00:00:00''
          [] ex_discriminators 3 (0, 1) 4 Map.empty) = Inl IndexError \<and>
   snd (save_checkpoint py_format ex_state_dict ''out'' ''2020-01-01 00:00:00''
          [] ex_discriminators 3 (0, 1) 4 Map.empty) ''out/checkpoint-3.yml'' = None"
  by (simp add: ex_checkpoint_simps)

text \<open>
  Claim C2, amended. For every call to \<^verbatim>\<open>save_checkpoint\<close> with a non-empty
  generators list, the weights of every local individual (\<^verbatim>\<open>is_local\<close> true) of
  the generator and discriminator populations are saved, each in a file of its own next
  to the YAML document: the \<open>k\<close>-th local individual of a population goes to
  \<^verbatim>\<open><prefix><cell_number>-<k>.pkl\<close> in the output directory. Nothing else is
  written apart from the checkpoint file, so the weights of an individual that is not
  local are not saved.
\<close>

theorem save_checkpoint_local_weights:
  assumes "generators \<noteq> []"
  shows "\<exists>files'.
           save_checkpoint fmt sd out now generators discriminators c pos gsz files = (Inr (), files') \<and>
           (\<forall>k < length (filter is_local generators).
              files' (path_join out (pkl_filename GENERATOR_PREFIX c k)) =
                Some (PickleFile (sd (net (genome (filter is_local generators ! k)))))) \<and>
           (\<forall>k < length (filter is_local discriminators).
              files' (path_join out (pkl_filename DISCRIMINATOR_PREFIX c k)) =
                Some (PickleFile (sd (net (genome (filter is_local discriminators ! k)))))) \<and>
           (\<forall>p. p \<noteq> checkpoint_path out c \<longrightarrow>
                (\<forall>k < length (filter is_local generators).
                   p \<noteq> path_join out (pkl_filename GENERATOR_PREFIX c k)) \<longrightarrow>
                (\<forall>k < length (filter is_local discriminators).
                   p \<noteq> path_join out (pkl_filename DISCRIMINATOR_PREFIX c k)) \<longrightarrow>
                files' p = files p)"
proof -
  let ?fs1 = "snd (get_individuals_information fmt sd out generators GENERATOR_PREFIX c files)"
  let ?fs2 = "snd (get_individuals_information fmt sd out discriminators DISCRIMINATOR_PREFIX c ?fs1)"
  have gen: "?fs2 (path_join out (pkl_filename GENERATOR_PREFIX c k)) =
               Some (PickleFile (sd (net (genome (filter is_local generators ! k)))))"
    if "k < length (filter is_local generators)" for k
  proof -
    have "?fs2 (path_join out (pkl_filename GENERATOR_PREFIX c k)) =
          ?fs1 (path_join out (pkl_filename GENERATOR_PREFIX c k))"
      by (rule info_files_other) (rule generator_path_not_discriminator)
    also have "\<dots> = Some (PickleFile (sd (net (genome (filter is_local generators ! k)))))"
      using that by (rule info_files_local)
    finally show ?thesis .
  qed
  have dis: "?fs2 (path_join out (pkl_filename DISCRIMINATOR_PREFIX c k)) =
               Some (PickleFile (sd (net (genome (filter is_local discriminators ! k)))))"
    if "k < length (filter is_local discriminators)" for k
    using that by (rule info_files_local)
  have other: "?fs2 p = files p"
    if "\<forall>k < length (filter is_local generators).
          p \<noteq> path_join out (pkl_filename GENERATOR_PREFIX c k)"
       "\<forall>k < length (filter is_local discriminators).
          p \<noteq> path_join out (pkl_filename DISCRIMINATOR_PREFIX c k)" for p
  proof -
    have "?fs2 p = ?fs1 p"
      by (rule info_files_other) (use that(2) in blast)
    also have "\<dots> = files p"
      by (rule info_files_other) (use that(1) in blast)
    finally show ?thesis .
  qed
  show ?thesis
    unfolding save_checkpoint_ok [OF assms]
    using gen dis other
    by (simp add: generator_path_not_checkpoint discriminator_path_not_checkpoint)
qed

theorem save_checkpoint_local_weights_witness:
  "ex_generators \<noteq> [] \<and>
   fst (save_checkpoint py_format ex_state_dict ''out'' ''2020-01-01 00:00:00''
          ex_generators ex_discriminators 3 (0, 1) 4 Map.empty) = Inr () \<and>
   snd (save_checkpoint py_format ex_state_dict ''out'' ''2020-01-01 00:00:00''
          ex_generators ex_discriminators 3 (0, 1) 4 Map.empty)
     (path_join ''out'' (pkl_filename GENERATOR_PREFIX 3 0)) = Some (PickleFile (ex_state_dict 0)) \<and>
   snd (save_checkpoint py_format ex_state_dict ''out'' ''2020-01-01 00:00:00''
          ex_generators ex_discriminators 3 (0, 1) 4 Map.empty)
     (path_join ''out'' (pkl_filename DISCRIMINATOR_PREFIX 3 0)) = Some (PickleFile (ex_state_dict 10)) \<and>
   snd (save_checkpoint py_format ex_state_dict ''out'' ''2020-01-01 00:00:00''
          ex_generators ex_discriminators 3 (0, 1) 4 Map.empty) ''out/generator-3-1.pkl'' = None"
proof -
  have a: "ex_generators \<noteq> []" by (simp add: ex_generators_def)
  from save_checkpoint_local_weights [OF a, of py_format ex_state_dict "''out''"
      "''2020-01-01 00:00:00''" ex_discriminators 3 "(0, 1)" 4 Map.empty]
  obtain files' where
    r: "save_checkpoint py_format ex_state_dict ''out'' ''2020-01-01 00:00:00''
          ex_generators ex_discriminators 3 (0, 1) 4 Map.empty = (Inr (), files')" and
    g: "\<forall>k < length (filter is_local ex_generators).
          files' (path_join ''out'' (pkl_filename GENERATOR_PREFIX 3 k)) =
            Some (PickleFile (ex_state_dict (net (genome (filter is_local ex_generators ! k)))))" and
    d: "\<forall>k < length (filter is_local ex_discriminators).
          files' (path_join ''out'' (pkl_filename DISCRIMINATOR_PREFIX 3 k)) =
            Some (PickleFile (ex_state_dict (net (genome (filter is_local ex_discriminators ! k)))))" and
    o: "\<forall>p. p \<noteq> checkpoint_path ''out'' 3 \<longrightarrow>
           (\<forall>k < length (filter is_local ex_generators).
              p \<noteq> path_join ''out'' (pkl_filename GENERATOR_PREFIX 3 k)) \<longrightarrow>
           (\<forall>k < length (filter is_local ex_discriminators).
              p \<noteq> path_join ''out'' (pkl_filename DISCRIMINATOR_PREFIX 3 k)) \<longrightarrow>
           files' p = Map.empty p"
    by blast
  have lg: "filter is_local ex_generators = [ex_individual ''g0'' True 3 1 0]"
    by (simp add: ex_generators_def ex_individual_def)
  have ld: "filter is_local ex_discriminators = [ex_individual ''d0'' True 4 1 10]"
    by (simp add: ex_discriminators_def ex_individual_def)
  have pg: "path_join ''out'' (pkl_filename GENERATOR_PREFIX 3 0) = ''out/generator-3-0.pkl''"
    by (simp add: path_join_def pkl_filename_def GENERATOR_PREFIX_def str_int_def
          str_nat.simps digit_char_def)
  have pd: "path_join ''out'' (pkl_filename DISCRIMINATOR_PREFIX 3 0) = ''out/discriminator-3-0.pkl''"
    by (simp add: path_join_def pkl_filename_def DISCRIMINATOR_PREFIX_def str_int_def
          str_nat.simps digit_char_def)
  have cp: "checkpoint_path ''out'' 3 = ''out/checkpoint-3.yml''"
    by (simp add: checkpoint_path_def path_join_def str_int_def str_nat.simps digit_char_def)
  from g have wg: "files' (path_join ''out'' (pkl_filename GENERATOR_PREFIX 3 0)) =
                     Some (PickleFile (ex_state_dict 0))"
    by (simp add: lg ex_individual_def)
  from d have wd: "files' (path_join ''out'' (pkl_filename DISCRIMINATOR_PREFIX 3 0)) =
                     Some (PickleFile (ex_state_dict 10))"
    by (simp add: ld ex_individual_def)
  from o [rule_format, of "''out/generator-3-1.pkl''"]
  have n: "files' ''out/generator-3-1.pkl'' = None"
    by (simp add: lg ld pg pd cp)
  from a r wg wd n show ?thesis by simp
qed

text \<open>
  Claim C2 as stated, the weights of every individual: the second generator of the
  example population is not local. The call succeeds and writes exactly three files; the
  two pickles hold the weights of networks 0 and 10, and the weights of network 1, the
  one of that generator, are in none of them.
\<close>

theorem save_checkpoint_weights_counterexample:
  "fst (save_checkpoint py_format ex_state_dict ''out'' ''2020-01-01 00:00:00''
          ex_generators ex_discriminators 3 (0, 1) 4 Map.empty) = Inr () \<and>
   dom (snd (save_checkpoint py_format ex_state_dict ''out'' ''2020-01-01 00:00:00''
          ex_generators ex_discriminators 3 (0, 1) 4 Map.empty)) =
     {''out/checkpoint-3.yml'', ''out/discriminator-3-0.pkl'', ''out/generator-3-0.pkl''} \<and>
   snd (save_checkpoint py_format ex_state_dict ''out'' ''2020-01-01 00:00:00''
          ex_generators ex_discriminators 3 (0, 1) 4 Map.empty) ''out/generator-3-0.pkl'' =
     Some (PickleFile 0) \<and>
   snd (save_checkpoint py_format ex_state_dict ''out'' ''2020-01-01 00:00:00''
          ex_generators ex_discriminators 3 (0, 1) 4 Map.empty) ''out/discriminator-3-0.pkl'' =
     Some (PickleFile 10) \<and>
   is_local (ex_generators ! 1) = False \<and>
   ex_state_dict (net (genome (ex_generators ! 1))) = 1"
  by (simp add: ex_checkpoint_simps) 


text \<open>
  Claim C4, amended. For every call to \<^verbatim>\<open>save_checkpoint\<close> with a non-empty
  generators list, the information serialized for a non-empty population holds one entry
  per individual with that individual's fitness, and a single \<^verbatim>\<open>'learning_rate'\<close>
  for the whole population: the formatted learning rate of its first individual. No
  entry holds a learning rate of its own; an empty population is serialized as the empty
  dictionary.
\<close>

theorem save_checkpoint_fitness_and_learning_rate:
  assumes "generators \<noteq> []"
  shows "\<exists>files' doc gen_info dis_info.
           save_checkpoint fmt sd out now generators discriminators c pos gsz files = (Inr (), files') \<and>
           files' (checkpoint_path out c) = Some (YamlFile (PDict doc)) \<and>
           dict_get doc ''generators'' = Some (PDict gen_info) \<and>
           dict_get doc ''discriminators'' = Some (PDict dis_info) \<and>
           population_rates fmt gen_info generators \<and>
           population_rates fmt dis_info discriminators"
  unfolding save_checkpoint_ok [OF assms]
  by (simp add: dict_get_def info_population_rates)

theorem save_checkpoint_fitness_and_learning_rate_witness:
  "ex_generators \<noteq> [] \<and>
   (\<exists>files' doc gen_info dis_info.
      save_checkpoint py_format ex_state_dict ''out'' ''2020-01-01 00:00:00''
        ex_generators ex_discriminators 3 (0, 1) 4 Map.empty = (Inr (), files') \<and>
      files' (checkpoint_path ''out'' 3) = Some (YamlFile (PDict doc)) \<and>
      dict_get doc ''generators'' = Some (PDict gen_info) \<and>
      dict_get doc ''discriminators'' = Some (PDict dis_info) \<and>
      population_rates py_format gen_info ex_generators \<and>
      population_rates py_format dis_info ex_discriminators)"
proof -
  have a: "ex_generators \<noteq> []" by (simp add: ex_generators_def)
  from a save_checkpoint_fitness_and_learning_rate [OF a, of py_format ex_state_dict "''out''"
      "''2020-01-01 00:00:00''" ex_discriminators 3 "(0, 1)" 4 Map.empty]
  show ?thesis by (intro conjI)
qed

text \<open>
  Claim C4 as stated, a learning rate for each individual: the second generator of the
  example population has learning rate 2, and the document written holds the learning
  rate of the first generator only.
\<close>

theorem save_checkpoint_learning_rate_counterexample:
  "learning_rate (ex_generators ! 1) = PyInt 2 \<and>
   snd (save_checkpoint py_format ex_state_dict ''out'' ''2020-01-01 00:00:00''
          ex_generators ex_discriminators 3 (0, 1) 4 Map.empty) ''out/checkpoint-3.yml'' =
   Some (YamlFile (PDict
     [(''time'', PStr ''2020-01-01 00:00:00''),
      (''generators'', PDict
         [(''learning_rate'', PStr ''1''),
          (''individuals'', PList
             [PDict [(''id'', PObj (PyStr ''g0'')), (''is_local'', PBool True),
                     (''fitness'', PObj (PyInt 3)), (''source'', PObj (PyStr ''127.0.0.1:5000''))],
              PDict [(''id'', PObj (PyStr ''g1'')), (''is_local'', PBool False),
                     (''fitness'', PObj (PyInt 5)), (''source'', PObj (PyStr ''127.0.0.1:5000''))]])]),
      (''discriminators'', PDict
         [(''learning_rate'', PStr ''1''),
          (''individuals'', PList
             [PDict [(''id'', PObj (PyStr ''d0'')), (''is_local'', PBool True),
                     (''fitness'', PObj (PyInt 4)), (''source'', PObj (PyStr ''127.0.0.1:5000''))]])]),
      (''id'', PInt 3),
      (''iteration'', PObj (PyInt 7)),
      (''position'', PDict [(''x'', PInt 0), (''y'', PInt 1)]),
      (''grid_size'', PInt 4)]))"
  by (simp add: ex_checkpoint_simps)

text \<open>
  Claim C10, amended. For every call to \<^verbatim>\<open>save_checkpoint\<close> with an empty
  generators list, the call fails with \<^verbatim>\<open>IndexError\<close> when it reads the iteration
  of the first generator, and the checkpoint file is not written, although
  \<^verbatim>\<open>get_individuals_information\<close> accepts the empty population, returning the
  empty dictionary and writing nothing. The discriminators have been processed by then:
  the weights of every local discriminator are in their files when the error is raised,
  and every other path of the output directory is unchanged.
\<close>

theorem save_checkpoint_empty_generators:
  "\<exists>files'.
     save_checkpoint fmt sd out now [] discriminators c pos gsz files = (Inl IndexError, files') \<and>
     files' (checkpoint_path out c) = files (checkpoint_path out c) \<and>
     get_individuals_information fmt sd out [] GENERATOR_PREFIX c files = ([], files) \<and>
     (\<forall>k < length (filter is_local discriminators).
        files' (path_join out (pkl_filename DISCRIMINATOR_PREFIX c k)) =
          Some (PickleFile (sd (net (genome (filter is_local discriminators ! k)))))) \<and>
     (\<forall>p. (\<forall>k < length (filter is_local discriminators).
             p \<noteq> path_join out (pkl_filename DISCRIMINATOR_PREFIX c k)) \<longrightarrow>
          files' p = files p)"
proof -
  let ?fs = "snd (get_individuals_information fmt sd out discriminators DISCRIMINATOR_PREFIX c files)"
  have chk: "?fs (checkpoint_path out c) = files (checkpoint_path out c)"
    by (rule info_files_other) (use discriminator_path_not_checkpoint in metis)
  have loc: "\<forall>k < length (filter is_local discriminators).
        ?fs (path_join out (pkl_filename DISCRIMINATOR_PREFIX c k)) =
          Some (PickleFile (sd (net (genome (filter is_local discriminators ! k)))))"
    by (simp add: info_files_local)
  have other: "\<forall>p. (\<forall>k < length (filter is_local discriminators).
             p \<noteq> path_join out (pkl_filename DISCRIMINATOR_PREFIX c k)) \<longrightarrow> ?fs p = files p"
    by (simp add: info_files_other)
  from chk loc other show ?thesis
    unfolding save_checkpoint_err by (simp add: info_empty)
qed

theorem save_checkpoint_empty_generators_witness:
  "fst (save_checkpoint py_format ex_state_dict ''out'' ''2020-01-01 00:00:00''
          [] ex_discriminators 3 (0, 1) 4 Map.empty) = Inl IndexError \<and>
   snd (save_checkpoint py_format ex_state_dict ''out'' ''2020-01-01 00:00:00''
          [] ex_discriminators 3 (0, 1) 4 Map.empty)
     (path_join ''out'' (pkl_filename DISCRIMINATOR_PREFIX 3 0)) =
     Some (PickleFile (ex_state_dict 10)) \<and>
   snd (save_checkpoint py_format ex_state_dict ''out'' ''2020-01-01 00:00:00''
          [] ex_discriminators 3 (0, 1) 4 Map.empty) ''out/checkpoint-3.yml'' = None \<and>
   snd (save_checkpoint py_format ex_state_dict ''out'' ''2020-01-01 00:00:00''
          [] ex_discriminators 3 (0, 1) 4 Map.empty) ''out/generator-3-0.pkl'' = None"
proof -
  from save_checkpoint_empty_generators [of py_format ex_state_dict "''out''"
      "''2020-01-01 00:00:00''" ex_discriminators 3 "(0, 1)" 4 Map.empty]
  obtain files' where
    r: "save_checkpoint py_format ex_state_dict ''out'' ''2020-01-01 00:00:00''
          [] ex_discriminators 3 (0, 1) 4 Map.empty = (Inl IndexError, files')" and
    c: "files' (checkpoint_path ''out'' 3) = Map.empty (checkpoint_path ''out'' 3)" and
    l: "\<forall>k < length (filter is_local ex_discriminators).
          files' (path_join ''out'' (pkl_filename DISCRIMINATOR_PREFIX 3 k)) =
            Some (PickleFile (ex_state_dict (net (genome (filter is_local ex_discriminators ! k)))))" and
    o: "\<forall>p. (\<forall>k < length (filter is_local ex_discriminators).
                p \<noteq> path_join ''out'' (pkl_filename DISCRIMINATOR_PREFIX 3 k)) \<longrightarrow>
             files' p = Map.empty p"
    by blast
  have loc: "filter is_local ex_discriminators = [ex_individual ''d0'' True 4 1 10]"
    by (simp add: ex_discriminators_def ex_individual_def)
  have p0: "path_join ''out'' (pkl_filename DISCRIMINATOR_PREFIX 3 0) = ''out/discriminator-3-0.pkl''"
    by (simp add: path_join_def pkl_filename_def DISCRIMINATOR_PREFIX_def str_int_def
          str_nat.simps digit_char_def)
  have cp: "checkpoint_path ''out'' 3 = ''out/checkpoint-3.yml''"
    by (simp add: checkpoint_path_def path_join_def str_int_def str_nat.simps digit_char_def)
  from l have w: "files' (path_join ''out'' (pkl_filename DISCRIMINATOR_PREFIX 3 0)) =
                    Some (PickleFile (ex_state_dict 10))"
    by (simp add: loc ex_individual_def)
  from c have k: "files' ''out/checkpoint-3.yml'' = None"
    by (simp add: cp)
  from o [rule_format, of "''out/generator-3-0.pkl''"] have g: "files' ''out/generator-3-0.pkl'' = None"
    by (simp add: loc p0)
  from r w k g show ?thesis by simp
qed

text \<open>
  Claim C10 as stated, the output state is unchanged on the error: with an empty
  generators list and a local discriminator, the file of that discriminator's weights
  has been written when \<^verbatim>\<open>IndexError\<close> is raised.
\<close>

theorem save_checkpoint_empty_generators_counterexample:
  "fst (save_checkpoint py_format ex_state_dict ''out'' ''2020-01-01 00:00:00''
          [] ex_discriminators 3 (0, 1) 4 Map.empty) = Inl IndexError \<and>
   snd (save_checkpoint py_format ex_state_dict ''out'' ''2020-01-01 00:00:00''
          [] ex_discriminators 3 (0, 1) 4 Map.empty) ''out/discriminator-3-0.pkl'' =
     Some (PickleFile 10) \<and>
   snd (save_checkpoint py_format ex_state_dict ''out'' ''2020-01-01 00:00:00''
          [] ex_discriminators 3 (0, 1) 4 Map.empty) \<noteq> Map.empty"
proof -
  have a: "fst (save_checkpoint py_format ex_state_dict ''out'' ''2020-01-01 00:00:00''
          [] ex_discriminators 3 (0, 1) 4 Map.empty) = Inl IndexError"
    by (simp add: ex_checkpoint_simps)
  have b: "snd (save_checkpoint py_format ex_state_dict ''out'' ''2020-01-01 00:00:00''
          [] ex_discriminators 3 (0, 1) 4 Map.empty) ''out/discriminator-3-0.pkl'' =
     Some (PickleFile 10)"
    by (simp add: ex_checkpoint_simps)
  from b have c: "snd (save_checkpoint py_format ex_state_dict ''out'' ''2020-01-01 00:00:00''
          [] ex_discriminators 3 (0, 1) 4 Map.empty) \<noteq> Map.empty"
    by (metis option.distinct(1))
  from a b c show ?thesis by (intro conjI)
qed

section \<open>Claims about save_images and log_results\<close>

lemma path_join_nonempty: "p \<noteq> [] \<Longrightarrow> path_join a p \<noteq> []"
  by (simp add: path_join_def)

lemma ex_trainer_populations:
  "population_gen (ex_trainer gens multi) = gens"
  "population_dis (ex_trainer gens multi) = ex_discriminators"
  by (simp_all add: ex_trainer_def)

text \<open>The definitions to unfold when a call is evaluated on the example trainer.\<close>

lemmas ex_trainer_simps =
  log_results_def save_images_def generate_def multi_step_def latent_def noise_def
  expand_sequence_def Let_def
  format_kwargs_def log_message_def eval_mode_def train_mode_def save_call_def
  truthy_path_def get_flag_def
  ex_trainer_def ex_trainer_count_def ex_settings_def ex_loader_def ex_world_def
  ex_generators_def ex_discriminators_def ex_individual_def
  path_join_def str_int_def str_nat.simps digit_char_def

text \<open>
  Claim C9, amended. Every generator network that \<^verbatim>\<open>save_images\<close> switches to
  evaluation mode is switched back to training mode before \<^verbatim>\<open>save_images\<close>
  returns: after a complete call each of them is in training mode, whatever its mode was
  before, and the mode of every other network is as it was. So the training-mode flag of
  every network is unchanged by a complete call when the evaluated generators were in
  training mode at the call.
\<close>

theorem save_images_restores_training_mode:
  assumes "save_images self n x iter loader pf pr w = (Inr (), w')"
  shows "training w' = (\<lambda>g. g \<in> evaluated_nets self loader \<or> training w g) \<and>
         ((\<forall>g \<in> evaluated_nets self loader. training w g) \<longrightarrow> training w' = training w)"
proof -
  have m: "training w' = (\<lambda>g. g \<in> evaluated_nets self loader \<or> training w g)"
    using assms by (rule save_images_modes)
  then show ?thesis by auto
qed

theorem save_images_restores_training_mode_witness:
  "save_images (ex_trainer ex_generators True) 128 (Input (PyStr ''batch'')) 0 ex_loader
     ''out/fake_images-1.jpg'' (Some ''out/real_images.jpg'') (ex_world True) =
   (Inr (), snd (save_images (ex_trainer ex_generators True) 128 (Input (PyStr ''batch'')) 0 ex_loader
     ''out/fake_images-1.jpg'' (Some ''out/real_images.jpg'') (ex_world True))) \<and>
   evaluated_nets (ex_trainer ex_generators True) ex_loader = {0, 1} \<and>
   training (ex_world True) 0 \<and> training (ex_world True) 1 \<and>
   training (snd (save_images (ex_trainer ex_generators True) 128 (Input (PyStr ''batch'')) 0 ex_loader
     ''out/fake_images-1.jpg'' (Some ''out/real_images.jpg'') (ex_world True))) =
   training (ex_world True)"
proof -
  have a: "save_images (ex_trainer ex_generators True) 128 (Input (PyStr ''batch'')) 0 ex_loader
     ''out/fake_images-1.jpg'' (Some ''out/real_images.jpg'') (ex_world True) =
   (Inr (), snd (save_images (ex_trainer ex_generators True) 128 (Input (PyStr ''batch'')) 0 ex_loader
     ''out/fake_images-1.jpg'' (Some ''out/real_images.jpg'') (ex_world True)))"
    by (simp add: ex_trainer_simps)
  have e: "evaluated_nets (ex_trainer ex_generators True) ex_loader = {0, 1}"
    by (simp add: evaluated_nets_def ex_trainer_simps)
  have t: "\<forall>g \<in> evaluated_nets (ex_trainer ex_generators True) ex_loader. training (ex_world True) g"
    by (simp add: ex_world_def)
  from save_images_restores_training_mode [OF a] t
  have "training (snd (save_images (ex_trainer ex_generators True) 128 (Input (PyStr ''batch'')) 0 ex_loader
     ''out/fake_images-1.jpg'' (Some ''out/real_images.jpg'') (ex_world True))) =
   training (ex_world True)"
    by blast
  moreover have "training (ex_world True) 0" and "training (ex_world True) 1"
    by (simp_all add: ex_world_def)
  ultimately show ?thesis using a e by (intro conjI)
qed

text \<open>
  Claim C9 as stated, the flag of every generator is unchanged: a generator that is in
  evaluation mode when \<^verbatim>\<open>save_images\<close> is called is in training mode when it
  returns.
\<close>

theorem save_images_training_mode_counterexample:
  "fst (save_images (ex_trainer ex_generators False) 128 (Input (PyStr ''batch'')) 0 ex_loader
     ''out/fake_images-1.jpg'' (Some ''out/real_images.jpg'') (ex_world False)) = Inr () \<and>
   training (ex_world False) 0 = False \<and>
   training (snd (save_images (ex_trainer ex_generators False) 128 (Input (PyStr ''batch'')) 0 ex_loader
     ''out/fake_images-1.jpg'' (Some ''out/real_images.jpg'') (ex_world False))) 0 = True"
  by (simp add: ex_trainer_simps)

lemma log_results_trace:
  assumes gens: "population_gen self = g0 # gs" and dis: "population_dis self = d0 # ds"
    and n0: "0 \<le> (if dataloader_sample_count (cc_settings self) = None \<or>
                     dataloader_sample_count (cc_settings self) = Some 0
                  then min b 128 else the (dataloader_sample_count (cc_settings self)))"
    and m0: "0 \<le> gen_input_size self"
  shows "\<exists>w'.
           log_results fmt ff self b iter x loader kwargs w =
             (Inr (path_join (cc_output_dir self)
                     (''real_images.'' @ logging_image_format (cc_settings self)),
                   path_join (cc_output_dir self)
                     (''fake_images-'' @ str_int (iter + 1) @ ''.'' @
                      logging_image_format (cc_settings self))), w') \<and>
           logged w' = logged w @
             [log_message (iter + 1) (ff (fitness g0)) (ff (fitness d0)) (format_kwargs fmt kwargs)] \<and>
           saved w' = saved w @
             (if iter = 0
              then [if dataset_has_save_images loader
                    then DatasetSave x (path_join (cc_output_dir self)
                           (''real_images.'' @ logging_image_format (cc_settings self)))
                    else DataloaderSave x (dataset_train_data_shape loader)
                           (path_join (cc_output_dir self)
                              (''real_images.'' @ logging_image_format (cc_settings self)))]
              else []) @
             [if dataset_has_save_images loader
              then DatasetSaveDiscr
                     (if get_flag (logging_print_multiple_generators (cc_settings self))
                      then Many (map (\<lambda>i. Forward (net (genome i))
                                     (expand_sequence self x
                                        (Noise (if dataloader_sample_count (cc_settings self) = None \<or>
                                                   dataloader_sample_count (cc_settings self) = Some 0
                                                then min b 128
                                                else the (dataloader_sample_count (cc_settings self)))
                                           (gen_input_size self))))
                                   (take 5 (population_gen self)))
                      else Single (Forward (net (genome g0))
                                     (expand_sequence self x
                                        (Noise (if dataloader_sample_count (cc_settings self) = None \<or>
                                                   dataloader_sample_count (cc_settings self) = Some 0
                                                then min b 128
                                                else the (dataloader_sample_count (cc_settings self)))
                                           (gen_input_size self)))))
                     (path_join (cc_output_dir self)
                        (''fake_images-'' @ str_int (iter + 1) @ ''.'' @
                         logging_image_format (cc_settings self)))
                     (if get_flag (logging_print_discriminator (cc_settings self))
                      then Some (genome d0) else None)
              else DataloaderSave
                     (Forward (net (genome g0))
                        (Noise (if dataloader_sample_count (cc_settings self) = None \<or>
                                   dataloader_sample_count (cc_settings self) = Some 0
                                then min b 128
                                else the (dataloader_sample_count (cc_settings self)))
                           (gen_input_size self)))
                     (dataset_train_data_shape loader)
                     (path_join (cc_output_dir self)
                        (''fake_images-'' @ str_int (iter + 1) @ ''.'' @
                         logging_image_format (cc_settings self)))]"
proof -
  let ?pr = "path_join (cc_output_dir self) (''real_images.'' @ logging_image_format (cc_settings self))"
  let ?pf = "path_join (cc_output_dir self)
               (''fake_images-'' @ str_int (iter + 1) @ ''.'' @ logging_image_format (cc_settings self))"
  let ?n = "case dataloader_sample_count (cc_settings self) of
              None \<Rightarrow> min b 128 | Some n \<Rightarrow> if n \<noteq> 0 then n else min b 128"
  let ?w1 = "w\<lparr>logged := logged w @
               [log_message (iter + 1) (ff (fitness g0)) (ff (fitness d0)) (format_kwargs fmt kwargs)]\<rparr>"
  have n1: "0 \<le> ?n"
    using n0 by (simp only: sample_count_cases)
  have tr: "truthy_path (Some ?pr)"
    by (simp add: truthy_path_def path_join_nonempty)
  from log_results_ok [OF gens dis n1 m0, of fmt ff iter x loader kwargs w] obtain w' where
    r: "log_results fmt ff self b iter x loader kwargs w = (Inr (?pr, ?pf), w')" and
    s: "save_images self ?n x iter loader ?pf (Some ?pr) ?w1 = (Inr (), w')"
    by blast
  from save_images_ok [OF gens dis n1 m0, of x iter loader ?pf "Some ?pr" ?w1] s tr r
  show ?thesis
    unfolding sample_count_cases by simp
qed

text \<open>
  Claim C6, amended. For every call to \<^verbatim>\<open>log_results\<close> with iteration \<open>i\<close> on a
  trainer whose generator and discriminator populations are not empty, with a number of
  samples asked of \<^verbatim>\<open>noise\<close> (the configured \<^verbatim>\<open>sample_count\<close>, or
  \<^verbatim>\<open>min(batch_size, 128)\<close> when it is absent or falsy) and a generator input size
  that are not negative, it logs one message with the iteration number \<open>i + 1\<close> and the
  fitness of the first generator and of the first discriminator, saves images (the
  generated ones to \<open>path_fake\<close>, and before them the real batch to \<open>path_real\<close> when
  \<open>i = 0\<close>), and returns the pair \<open>(path_real, path_fake)\<close>, where \<open>path_real\<close> is
  \<^verbatim>\<open>real_images.<image_format>\<close> and \<open>path_fake\<close> is
  \<^verbatim>\<open>fake_images-<i+1>.<image_format>\<close>, both in the output directory.
\<close>

theorem log_results_logs_saves_returns:
  assumes "population_gen self \<noteq> []" and "population_dis self \<noteq> []"
    and "0 \<le> gen_input_size self"
    and "0 \<le> (if dataloader_sample_count (cc_settings self) = None \<or>
                  dataloader_sample_count (cc_settings self) = Some 0
               then min b 128 else the (dataloader_sample_count (cc_settings self)))"
  shows "\<exists>w' calls.
           log_results fmt ff self b iter x loader kwargs w =
             (Inr (path_join (cc_output_dir self)
                     (''real_images.'' @ logging_image_format (cc_settings self)),
                   path_join (cc_output_dir self)
                     (''fake_images-'' @ str_int (iter + 1) @ ''.'' @
                      logging_image_format (cc_settings self))), w') \<and>
           logged w' = logged w @
             [''Iteration='' @ str_int (iter + 1) @
              '', f(Generator(x))='' @ ff (fitness (population_gen self ! 0)) @
              '', f(Discriminator(x))='' @ ff (fitness (population_dis self ! 0)) @
              format_kwargs fmt kwargs] \<and>
           saved w' = saved w @ calls \<and>
           length calls = (if iter = 0 then 2 else 1) \<and>
           call_path (last calls) =
             path_join (cc_output_dir self)
               (''fake_images-'' @ str_int (iter + 1) @ ''.'' @
                logging_image_format (cc_settings self)) \<and>
           (iter = 0 \<longrightarrow>
              call_path (hd calls) =
                path_join (cc_output_dir self)
                  (''real_images.'' @ logging_image_format (cc_settings self)) \<and>
              call_tensors (hd calls) = [x])"
proof -
  from assms(1,2) obtain g0 gs d0 ds where
    gens: "population_gen self = g0 # gs" and dis: "population_dis self = d0 # ds"
    by (meson list.exhaust)
  from log_results_trace [OF gens dis assms(4) assms(3), of fmt ff iter x loader kwargs w] gens dis
  show ?thesis
    by (auto simp: log_message_def)
qed

theorem log_results_logs_saves_returns_witness:
  "population_gen (ex_trainer ex_generators False) \<noteq> [] \<and>
   population_dis (ex_trainer ex_generators False) \<noteq> [] \<and>
   0 \<le> gen_input_size (ex_trainer ex_generators False) \<and>
   0 \<le> (if dataloader_sample_count (cc_settings (ex_trainer ex_generators False)) = None \<or>
             dataloader_sample_count (cc_settings (ex_trainer ex_generators False)) = Some 0
          then min 200 128
          else the (dataloader_sample_count (cc_settings (ex_trainer ex_generators False)))) \<and>
   fst (log_results py_format py_format_float (ex_trainer ex_generators False) 200 0
          (Input (PyStr ''batch'')) ex_loader [(''loss'', PyInt 2)] (ex_world True)) =
     Inr (''out/real_images.jpg'', ''out/fake_images-1.jpg'') \<and>
   logged (snd (log_results py_format py_format_float (ex_trainer ex_generators False) 200 0
          (Input (PyStr ''batch'')) ex_loader [(''loss'', PyInt 2)] (ex_world True))) =
     [''Iteration=1, f(Generator(x))=3.0, f(Discriminator(x))=4.0, loss=2''] \<and>
   map call_path (saved (snd (log_results py_format py_format_float (ex_trainer ex_generators False)
          200 0 (Input (PyStr ''batch'')) ex_loader [(''loss'', PyInt 2)] (ex_world True)))) =
     [''out/real_images.jpg'', ''out/fake_images-1.jpg'']"
proof -
  have a: "population_gen (ex_trainer ex_generators False) \<noteq> []"
    by (simp add: ex_trainer_populations ex_generators_def)
  have b: "population_dis (ex_trainer ex_generators False) \<noteq> []"
    by (simp add: ex_trainer_populations ex_discriminators_def)
  have g: "0 \<le> gen_input_size (ex_trainer ex_generators False)"
    by (simp add: ex_trainer_def)
  have n: "0 \<le> (if dataloader_sample_count (cc_settings (ex_trainer ex_generators False)) = None \<or>
             dataloader_sample_count (cc_settings (ex_trainer ex_generators False)) = Some 0
          then min 200 128
          else the (dataloader_sample_count (cc_settings (ex_trainer ex_generators False))))"
    by (simp add: ex_trainer_def ex_settings_def)
  from log_results_logs_saves_returns [OF a b g n, of py_format py_format_float 0
      "Input (PyStr ''batch'')" ex_loader "[(''loss'', PyInt 2)]" "ex_world True"]
  obtain w' calls where
    r: "log_results py_format py_format_float (ex_trainer ex_generators False) 200 0
          (Input (PyStr ''batch'')) ex_loader [(''loss'', PyInt 2)] (ex_world True) =
        (Inr (path_join (cc_output_dir (ex_trainer ex_generators False))
                (''real_images.'' @ logging_image_format (cc_settings (ex_trainer ex_generators False))),
              path_join (cc_output_dir (ex_trainer ex_generators False))
                (''fake_images-'' @ str_int (0 + 1) @ ''.'' @
                 logging_image_format (cc_settings (ex_trainer ex_generators False)))), w')" and
    l: "logged w' = logged (ex_world True) @
          [''Iteration='' @ str_int (0 + 1) @
           '', f(Generator(x))='' @
           py_format_float (fitness (population_gen (ex_trainer ex_generators False) ! 0)) @
           '', f(Discriminator(x))='' @
           py_format_float (fitness (population_dis (ex_trainer ex_generators False) ! 0)) @
           format_kwargs py_format [(''loss'', PyInt 2)]]" and
    c: "saved w' = saved (ex_world True) @ calls" and
    k: "length calls = (if (0::int) = 0 then 2 else 1)" and
    f: "call_path (last calls) =
          path_join (cc_output_dir (ex_trainer ex_generators False))
            (''fake_images-'' @ str_int (0 + 1) @ ''.'' @
             logging_image_format (cc_settings (ex_trainer ex_generators False)))" and
    h: "(0::int) = 0 \<longrightarrow>
          call_path (hd calls) =
            path_join (cc_output_dir (ex_trainer ex_generators False))
              (''real_images.'' @ logging_image_format (cc_settings (ex_trainer ex_generators False))) \<and>
          call_tensors (hd calls) = [Input (PyStr ''batch'')]"
    by blast
  from k obtain c1 c2 where cs: "calls = [c1, c2]"
    by (cases calls; cases "tl calls"; auto)
  have pr: "path_join (cc_output_dir (ex_trainer ex_generators False))
              (''real_images.'' @ logging_image_format (cc_settings (ex_trainer ex_generators False))) =
            ''out/real_images.jpg''"
    by (simp add: ex_trainer_def ex_settings_def path_join_def)
  have pf: "path_join (cc_output_dir (ex_trainer ex_generators False))
              (''fake_images-'' @ str_int (0 + 1) @ ''.'' @
               logging_image_format (cc_settings (ex_trainer ex_generators False))) =
            ''out/fake_images-1.jpg''"
    by (simp add: ex_trainer_def ex_settings_def path_join_def str_int_def str_nat.simps digit_char_def)
  have m: "logged w' = [''Iteration=1, f(Generator(x))=3.0, f(Discriminator(x))=4.0, loss=2'']"
    unfolding l
    by (simp add: ex_trainer_populations ex_generators_def ex_discriminators_def ex_individual_def
          ex_world_def format_kwargs_def str_int_def str_nat.simps digit_char_def)
  from f have f': "call_path (last calls) = ''out/fake_images-1.jpg''"
    by (simp only: pf)
  from h have "call_path (hd calls) =
            path_join (cc_output_dir (ex_trainer ex_generators False))
              (''real_images.'' @ logging_image_format (cc_settings (ex_trainer ex_generators False)))"
    by blast
  then have h': "call_path (hd calls) = ''out/real_images.jpg''"
    by (simp only: pr)
  from c cs f' h' have p: "map call_path (saved w') = [''out/real_images.jpg'', ''out/fake_images-1.jpg'']"
    by (simp add: ex_world_def)
  from r have r': "fst (log_results py_format py_format_float (ex_trainer ex_generators False) 200 0
          (Input (PyStr ''batch'')) ex_loader [(''loss'', PyInt 2)] (ex_world True)) =
     Inr (''out/real_images.jpg'', ''out/fake_images-1.jpg'')"
    by (simp only: pr pf fst_conv)
  from r have s': "snd (log_results py_format py_format_float (ex_trainer ex_generators False) 200 0
          (Input (PyStr ''batch'')) ex_loader [(''loss'', PyInt 2)] (ex_world True)) = w'"
    by (simp only: snd_conv)
  from a b g n r' m p show ?thesis
    unfolding s' by (intro conjI)
qed

text \<open>
  Claim C6 as stated, for every call: with an empty generator population the call raises
  \<^verbatim>\<open>IndexError\<close> while the message is being formatted, and nothing is logged,
  saved or returned; with \<^verbatim>\<open>sample_count\<close> set to \<open>-1\<close> the message is logged and
  the real images are saved, then \<^verbatim>\<open>noise\<close> raises \<^verbatim>\<open>RuntimeError\<close>: no
  generated image is saved and no pair is returned.
\<close>

theorem log_results_empty_population_counterexample:
  "log_results py_format py_format_float (ex_trainer [] False) 200 0
     (Input (PyStr ''batch'')) ex_loader [(''loss'', PyInt 2)] (ex_world True) =
   (Inl IndexError, ex_world True) \<and>
   fst (log_results py_format py_format_float (ex_trainer_count (- 1)) 200 0
          (Input (PyStr ''batch'')) ex_loader [(''loss'', PyInt 2)] (ex_world True)) =
     Inl RuntimeError \<and>
   logged (snd (log_results py_format py_format_float (ex_trainer_count (- 1)) 200 0
          (Input (PyStr ''batch'')) ex_loader [(''loss'', PyInt 2)] (ex_world True))) =
     [''Iteration=1, f(Generator(x))=3.0, f(Discriminator(x))=4.0, loss=2''] \<and>
   saved (snd (log_results py_format py_format_float (ex_trainer_count (- 1)) 200 0
          (Input (PyStr ''batch'')) ex_loader [(''loss'', PyInt 2)] (ex_world True))) =
     [DatasetSave (Input (PyStr ''batch'')) ''out/real_images.jpg'']"
  by (simp add: ex_trainer_simps)

text \<open>
  Claim C8, amended. For every call to \<^verbatim>\<open>log_results\<close> on a trainer whose
  generator and discriminator populations are not empty, where the number of samples
  asked for (\<^verbatim>\<open>min(batch_size, 128)\<close> if the \<^verbatim>\<open>sample_count\<close> setting is
  absent or falsy, the configured \<^verbatim>\<open>sample_count\<close> otherwise, whatever
  \<^verbatim>\<open>batch_size\<close> is) and the generator input size are not negative, every batch of
  generated images handed to the image-saving call for \<open>path_fake\<close> has exactly that
  number of samples. There is one such batch, or one for each of the first
  \<^verbatim>\<open>min(n, 5)\<close> generators when \<^verbatim>\<open>print_multiple_generators\<close> is set and the
  dataset saves its own images.
\<close>

theorem log_results_sample_count:
  assumes "population_gen self \<noteq> []" and "population_dis self \<noteq> []"
    and "0 \<le> gen_input_size self"
    and "0 \<le> (if dataloader_sample_count (cc_settings self) = None \<or>
                  dataloader_sample_count (cc_settings self) = Some 0
               then min b 128 else the (dataloader_sample_count (cc_settings self)))"
  shows "\<exists>r w'.
           log_results fmt ff self b iter x loader kwargs w = (Inr r, w') \<and>
           saved w' \<noteq> [] \<and>
           call_path (last (saved w')) = snd r \<and>
           (\<forall>t \<in> set (call_tensors (last (saved w'))).
              n_samples t =
                Some (if dataloader_sample_count (cc_settings self) = None \<or>
                         dataloader_sample_count (cc_settings self) = Some 0
                      then min b 128
                      else the (dataloader_sample_count (cc_settings self)))) \<and>
           length (call_tensors (last (saved w'))) =
             (if dataset_has_save_images loader \<and>
                 get_flag (logging_print_multiple_generators (cc_settings self))
              then min (length (population_gen self)) 5 else 1)"
proof -
  from assms(1,2) obtain g0 gs d0 ds where
    gens: "population_gen self = g0 # gs" and dis: "population_dis self = d0 # ds"
    by (meson list.exhaust)
  from log_results_trace [OF gens dis assms(4) assms(3), of fmt ff iter x loader kwargs w] gens dis
  show ?thesis
    by (auto simp: n_samples_expand)
qed


theorem log_results_sample_count_witness:
  "population_gen (ex_trainer ex_generators True) \<noteq> [] \<and>
   population_dis (ex_trainer ex_generators True) \<noteq> [] \<and>
   0 \<le> gen_input_size (ex_trainer ex_generators True) \<and>
   0 \<le> min (200::int) 128 \<and>
   (\<exists>r w'.
      log_results py_format py_format_float (ex_trainer ex_generators True) 200 0
        (Input (PyStr ''batch'')) ex_loader [] (ex_world True) = (Inr r, w') \<and>
      saved w' \<noteq> [] \<and>
      call_path (last (saved w')) = snd r \<and>
      (\<forall>t \<in> set (call_tensors (last (saved w'))). n_samples t = Some 128) \<and>
      length (call_tensors (last (saved w'))) = 2) \<and>
   population_gen (ex_trainer_count 16) \<noteq> [] \<and>
   population_dis (ex_trainer_count 16) \<noteq> [] \<and>
   0 \<le> gen_input_size (ex_trainer_count 16) \<and>
   0 \<le> the (dataloader_sample_count (cc_settings (ex_trainer_count 16))) \<and>
   (\<exists>r w'.
      log_results py_format py_format_float (ex_trainer_count 16) 200 0
        (Input (PyStr ''batch'')) ex_loader [] (ex_world True) = (Inr r, w') \<and>
      saved w' \<noteq> [] \<and>
      call_path (last (saved w')) = snd r \<and>
      (\<forall>t \<in> set (call_tensors (last (saved w'))). n_samples t = Some 16) \<and>
      length (call_tensors (last (saved w'))) = 1)"
proof -
  have a: "population_gen (ex_trainer ex_generators True) \<noteq> []"
    by (simp add: ex_trainer_populations ex_generators_def)
  have b: "population_dis (ex_trainer ex_generators True) \<noteq> []"
    by (simp add: ex_trainer_populations ex_discriminators_def)
  have g: "0 \<le> gen_input_size (ex_trainer ex_generators True)"
    by (simp add: ex_trainer_def)
  have s: "dataloader_sample_count (cc_settings (ex_trainer ex_generators True)) = None"
    by (simp add: ex_trainer_def ex_settings_def)
  have n: "0 \<le> (if dataloader_sample_count (cc_settings (ex_trainer ex_generators True)) = None \<or>
             dataloader_sample_count (cc_settings (ex_trainer ex_generators True)) = Some 0
          then min 200 128
          else the (dataloader_sample_count (cc_settings (ex_trainer ex_generators True))))"
    by (simp add: s)
  have n': "0 \<le> min (200::int) 128" by simp
  have m: "dataset_has_save_images ex_loader \<and>
           get_flag (logging_print_multiple_generators (cc_settings (ex_trainer ex_generators True)))"
    by (simp add: ex_loader_def ex_trainer_def ex_settings_def get_flag_def)
  have k: "min (length (population_gen (ex_trainer ex_generators True))) 5 = 2"
    by (simp add: ex_trainer_populations ex_generators_def)
  from log_results_sample_count [OF a b g n, of py_format py_format_float 0
      "Input (PyStr ''batch'')" ex_loader "[]" "ex_world True"]
  have first: "\<exists>r w'.
      log_results py_format py_format_float (ex_trainer ex_generators True) 200 0
        (Input (PyStr ''batch'')) ex_loader [] (ex_world True) = (Inr r, w') \<and>
      saved w' \<noteq> [] \<and>
      call_path (last (saved w')) = snd r \<and>
      (\<forall>t \<in> set (call_tensors (last (saved w'))). n_samples t = Some 128) \<and>
      length (call_tensors (last (saved w'))) = 2"
    by (simp add: s m k)
  have a2: "population_gen (ex_trainer_count 16) \<noteq> []"
    by (simp add: ex_trainer_count_def ex_generators_def)
  have b2: "population_dis (ex_trainer_count 16) \<noteq> []"
    by (simp add: ex_trainer_count_def ex_discriminators_def)
  have g2: "0 \<le> gen_input_size (ex_trainer_count 16)"
    by (simp add: ex_trainer_count_def)
  have s2: "dataloader_sample_count (cc_settings (ex_trainer_count 16)) = Some 16"
    by (simp add: ex_trainer_count_def)
  have n2: "0 \<le> (if dataloader_sample_count (cc_settings (ex_trainer_count 16)) = None \<or>
             dataloader_sample_count (cc_settings (ex_trainer_count 16)) = Some 0
          then min 200 128
          else the (dataloader_sample_count (cc_settings (ex_trainer_count 16))))"
    by (simp add: s2)
  have n2': "0 \<le> the (dataloader_sample_count (cc_settings (ex_trainer_count 16)))"
    by (simp add: s2)
  have m2: "\<not> get_flag (logging_print_multiple_generators (cc_settings (ex_trainer_count 16)))"
    by (simp add: ex_trainer_count_def ex_settings_def get_flag_def)
  from log_results_sample_count [OF a2 b2 g2 n2, of py_format py_format_float 0
      "Input (PyStr ''batch'')" ex_loader "[]" "ex_world True"]
  have second: "\<exists>r w'.
      log_results py_format py_format_float (ex_trainer_count 16) 200 0
        (Input (PyStr ''batch'')) ex_loader [] (ex_world True) = (Inr r, w') \<and>
      saved w' \<noteq> [] \<and>
      call_path (last (saved w')) = snd r \<and>
      (\<forall>t \<in> set (call_tensors (last (saved w'))). n_samples t = Some 16) \<and>
      length (call_tensors (last (saved w'))) = 1"
    by (simp add: s2 m2)
  from a b g n' first a2 b2 g2 n2' second show ?thesis by (intro conjI)
qed

text \<open>
  Claim C8 as stated, one number of images for every call: with an empty generator
  population the call raises and no image is generated or saved; with two generators and
  \<^verbatim>\<open>print_multiple_generators\<close>, a batch size of 200 and no
  \<^verbatim>\<open>sample_count\<close>, two batches of 128 samples are generated and saved, 256 images
  and not 128; with \<^verbatim>\<open>sample_count\<close> set to \<open>-1\<close>, \<^verbatim>\<open>noise\<close> raises
  \<^verbatim>\<open>RuntimeError\<close> and no image is generated.
\<close>

theorem log_results_sample_count_counterexample:
  "fst (log_results py_format py_format_float (ex_trainer [] True) 200 0
          (Input (PyStr ''batch'')) ex_loader [] (ex_world True)) = Inl IndexError \<and>
   saved (snd (log_results py_format py_format_float (ex_trainer [] True) 200 0
          (Input (PyStr ''batch'')) ex_loader [] (ex_world True))) = [] \<and>
   fst (log_results py_format py_format_float (ex_trainer ex_generators True) 200 0
          (Input (PyStr ''batch'')) ex_loader [] (ex_world True)) =
     Inr (''out/real_images.jpg'', ''out/fake_images-1.jpg'') \<and>
   saved (snd (log_results py_format py_format_float (ex_trainer ex_generators True) 200 0
          (Input (PyStr ''batch'')) ex_loader [] (ex_world True))) =
     [DatasetSave (Input (PyStr ''batch'')) ''out/real_images.jpg'',
      DatasetSaveDiscr (Many [Forward 0 (Noise 128 64), Forward 1 (Noise 128 64)])
        ''out/fake_images-1.jpg'' None] \<and>
   map n_samples [Forward 0 (Noise 128 64), Forward 1 (Noise 128 64)] = [Some 128, Some 128] \<and>
   dataloader_sample_count (cc_settings (ex_trainer_count (- 1))) = Some (- 1) \<and>
   fst (log_results py_format py_format_float (ex_trainer_count (- 1)) 200 0
          (Input (PyStr ''batch'')) ex_loader [] (ex_world True)) = Inl RuntimeError \<and>
   saved (snd (log_results py_format py_format_float (ex_trainer_count (- 1)) 200 0
          (Input (PyStr ''batch'')) ex_loader [] (ex_world True))) =
     [DatasetSave (Input (PyStr ''batch'')) ''out/real_images.jpg'']"
  by (simp add: ex_trainer_simps)

end
